theory Spec2Isabelle
  imports Main
begin

section \<open>Data model\<close>

text \<open>
  The export command of \<^verbatim>\<open>src/exportProject.ts\<close> builds one \<^verbatim>\<open>ProjectJson\<close> value from the
  files of a project and writes it out. The embedding keeps the shapes of the TypeScript
  declarations: \<^verbatim>\<open>StringMap\<close> is an object used as a dictionary from package names to
  version strings. Its keys are enumerated in insertion order by \<^verbatim>\<open>for ... in\<close> and
  \<^verbatim>\<open>Object.keys\<close>, so it is an association list (package names are taken not to be
  canonical array indices, which JavaScript would enumerate first).
\<close>

type_synonym StringMap = "(string \<times> string) list"

text \<open>
  Modelled from the spec: the enumeration \<^verbatim>\<open>ProjectFileType\<close>, declared in
  \<^verbatim>\<open>src/interfaces/project.json.d.ts\<close>, which is not among the sources. The specification
  lists its nine kinds, and \<^verbatim>\<open>exportProject.ts\<close> uses each of them by name.
\<close>

datatype ProjectFileType =
  TypeScript | HTML | CSS | JSON | XML | Markdown | Definition | Lib | PlainText

text \<open>
  \<^verbatim>\<open>ProjectFile\<close> is \<^verbatim>\<open>{ name, text, type }\<close>, as \<^verbatim>\<open>createProjectFile\<close> builds it; the
  fields carry a prefix here.
\<close>

record ProjectFile =
  file_name :: string
  file_text :: string
  file_type :: ProjectFileType

text \<open>
  The manifest, as far as the code reads it (the interface \<^verbatim>\<open>PackageJson\<close>, typed as the
  code types it: a dictionary where the code iterates or assigns one, a string where it
  uses one); an absent field is \<open>None\<close>. Every other field of a manifest is passed
  through untouched by the code and is left out. The compiler configuration and the
  project are read off \<^verbatim>\<open>createProject\<close> and the places that use their fields; the
  field \<^verbatim>\<open>include\<close> is called \<open>tsconfig_include\<close>.
\<close>

record PackageJson =
  pkg_name :: "string option"
  pkg_dependencies :: "StringMap option"
  pkg_devDependencies :: "StringMap option"
  pkg_peerDependencies :: "StringMap option"
  pkg_typings :: "string option"
  pkg_types :: "string option"

record CompilerOptions =
  lib :: "string list option"
  types :: "string list option"

record TsConfig =
  compilerOptions :: "CompilerOptions option"
  tsconfig_include :: "string list option"

record Dependencies =
  production :: StringMap
  development :: StringMap

record ProjectJson =
  dependencies :: Dependencies
  dojorc :: "string option"
  environmentFiles :: "ProjectFile list"
  files :: "ProjectFile list"
  index :: string
  package :: PackageJson
  tsconfig :: TsConfig

text \<open>
  A JavaScript \<^verbatim>\<open>Error\<close>: its message and its \<^verbatim>\<open>stack\<close> property, the text the top-level
  handler prints.
\<close>

datatype error = Error (err_message: string) (err_stack: string)

record ExportArgs =
  content :: "string option"
  out :: string
  index_arg :: "string option"
  project :: string
  verbose_arg :: bool

section \<open>The process and its environment\<close>

text \<open>
  The mutable state of the process: the module variable \<^verbatim>\<open>verboseFlag\<close> of
  \<^verbatim>\<open>src/log.ts\<close>, the lines given to \<^verbatim>\<open>console.log\<close>, the current working directory, and
  the files written by \<^verbatim>\<open>writeFile\<close>. The field \<open>visits\<close> is a trace kept for the proofs
  only: the package names whose manifest lookup \<^verbatim>\<open>getDependencies\<close> has started, in order.
\<close>

record world =
  verboseFlag :: bool
  console :: "string list"
  cwd :: string
  written :: "(string \<times> string) list"
  visits :: "string list"

text \<open>
  What the code takes from Node and its libraries is a parameter of the model. The file
  system holds finitely many readable files (\<open>fs_files\<close>, path and contents, seen from the
  project directory); \<^verbatim>\<open>readFile\<close> on any other path fails with \<open>fs_read_error\<close>.
  \<^verbatim>\<open>JSON.parse\<close> is taken at the three types the code parses into, and
  \<^verbatim>\<open>JSON.stringify\<close> at the two it serialises. \<open>trace\<close> is what the engine appends to the
  headline of the \<^verbatim>\<open>stack\<close> of an error created by the code itself.
\<close>

record env =
  fs_access :: "string \<Rightarrow> bool"
  fs_files :: "(string \<times> string) list"
  fs_read_error :: "string \<Rightarrow> error"
  fs_writeFile :: "string \<Rightarrow> string \<Rightarrow> error option"
  fs_chdir :: "string \<Rightarrow> error + string"
  glob :: "string \<Rightarrow> error + string list"
  requireResolve :: "string \<Rightarrow> error + string"
  parse_package :: "string \<Rightarrow> error + PackageJson"
  parse_tsconfig :: "string \<Rightarrow> error + TsConfig"
  parse_json :: "string \<Rightarrow> error + string"
  stringify_package :: "PackageJson \<Rightarrow> string"
  stringify_project :: "ProjectJson \<Rightarrow> string"
  extname :: "string \<Rightarrow> string"
  join :: "string list \<Rightarrow> string"
  normalize :: "string \<Rightarrow> string"
  relative :: "string \<Rightarrow> string \<Rightarrow> string"
  trace :: string

section \<open>Logging (\<^verbatim>\<open>src/log.ts\<close>)\<close>

text \<open>
  \<^verbatim>\<open>log(...text)\<close> prints the concatenation of its arguments as one line.
  The styling functions of \<^verbatim>\<open>chalk\<close> (\<^verbatim>\<open>bold.blue\<close>, \<^verbatim>\<open>underline\<close>, ...) are the identity
  on the text: terminal colours are not part of the model.
\<close>

definition log :: "string list \<Rightarrow> world \<Rightarrow> world" where
  "log text w = w\<lparr>console := console w @ [concat text]\<rparr>"

definition verbose :: "string list \<Rightarrow> world \<Rightarrow> world" where
  "verbose text w = (if \<not> verboseFlag w then w else log text w)"

fun indent :: "nat \<Rightarrow> string \<Rightarrow> string" where
  "indent 0 message = message"
| "indent (Suc num) message = indent num (''  '' @ message)"

definition setVerbose :: "bool \<Rightarrow> world \<Rightarrow> world" where
  "setVerbose v w = w\<lparr>verboseFlag := v\<rparr>"

section \<open>JavaScript built-ins used by the code\<close>

text \<open>\<^verbatim>\<open>Array.prototype.join\<close> on strings.\<close>

fun join_with :: "string \<Rightarrow> string list \<Rightarrow> string" where
  "join_with sep [] = []"
| "join_with sep [x] = x"
| "join_with sep (x # y # ys) = x @ sep @ join_with sep (y # ys)"

text \<open>
  \<^verbatim>\<open>Object.assign(target, source)\<close> on dictionaries: every own property of the source is
  written to the target, in the source's order; a key the target already has keeps its
  place and takes the new value, a new key is appended. An \<^verbatim>\<open>undefined\<close> source is
  skipped.
\<close>

fun set_property :: "StringMap \<Rightarrow> string \<Rightarrow> string \<Rightarrow> StringMap" where
  "set_property [] k v = [(k, v)]"
| "set_property ((k', v') # m) k v =
     (if k' = k then (k, v) # m else (k', v') # set_property m k v)"

fun Object_assign :: "StringMap \<Rightarrow> StringMap \<Rightarrow> StringMap" where
  "Object_assign target [] = target"
| "Object_assign target ((k, v) # source) = Object_assign (set_property target k v) source"

fun Object_assign_opt :: "StringMap \<Rightarrow> StringMap option \<Rightarrow> StringMap" where
  "Object_assign_opt target None = target"
| "Object_assign_opt target (Some source) = Object_assign target source"

definition Object_keys :: "StringMap \<Rightarrow> string list" where
  "Object_keys m = map fst m"

section \<open>File access\<close>

definition getFile :: "env \<Rightarrow> string \<Rightarrow> error + string" where
  "getFile e filename =
     (case map_of (fs_files e) filename of
        Some data \<Rightarrow> Inr data
      | None \<Rightarrow> Inl (fs_read_error e filename))"

definition getGlob :: "env \<Rightarrow> string \<Rightarrow> error + string list" where
  "getGlob e pattern = glob e pattern"

definition exists_file :: "env \<Rightarrow> string \<Rightarrow> bool" where
  "exists_file e filename = fs_access e filename"

definition createProjectFile :: "string \<Rightarrow> string \<Rightarrow> ProjectFileType \<Rightarrow> ProjectFile" where
  "createProjectFile n t ty = \<lparr>file_name = n, file_text = t, file_type = ty\<rparr>"

section \<open>Dependency resolution (\<^verbatim>\<open>getDependencies\<close>)\<close>

text \<open>
  The body of the \<^verbatim>\<open>try\<close> block: resolve the manifest of the package, read it, parse it.
  Any of the three steps may throw.
\<close>

definition try_packageJson :: "env \<Rightarrow> string \<Rightarrow> error + PackageJson" where
  "try_packageJson e packageName =
     (case requireResolve e (join e [packageName, ''package.json'']) of
        Inl err \<Rightarrow> Inl err
      | Inr packageJsonFileName \<Rightarrow>
          (case getFile e packageJsonFileName of
             Inl err \<Rightarrow> Inl err
           | Inr data \<Rightarrow> parse_package e data))"

text \<open>
  The state of one call: the local object \<^verbatim>\<open>dependencies\<close>, the set \<^verbatim>\<open>parsedPackages\<close>
  shared by all the calls of one resolution, and the process state.
\<close>

record walk =
  acc :: StringMap
  parsedPackages :: "string set"
  proc :: world

text \<open>
  The two verbose messages after a manifest was merged: one for a non-empty
  \<^verbatim>\<open>dependencies\<close>, one for a non-empty \<^verbatim>\<open>peerDependencies\<close>.
\<close>

definition log_depends :: "string \<Rightarrow> StringMap option \<Rightarrow> world \<Rightarrow> world" where
  "log_depends what m w =
     (case m of
        None \<Rightarrow> w
      | Some d \<Rightarrow>
          if Object_keys d \<noteq> []
          then verbose [indent 3 '''', ''depends'',
                 '' on '' @ what @ '' \"'' @ join_with ''\", \"'' (Object_keys d) @ ''\"''] w
          else w)"

text \<open>The \<^verbatim>\<open>for ... in\<close> loop over the keys of \<^verbatim>\<open>packages\<close>.\<close>

fun frontier :: "env \<Rightarrow> string list \<Rightarrow> walk \<Rightarrow> walk" where
  "frontier e [] s = s"
| "frontier e (packageName # rest) s =
     (if packageName \<notin> parsedPackages s then
        (let s1 = s\<lparr>parsedPackages := insert packageName (parsedPackages s),
                    proc := verbose [indent 2 '''', ''resolving'',
                              '' dependencies for package \"'' @ packageName @ ''\"'']
                              ((proc s)\<lparr>visits := visits (proc s) @ [packageName]\<rparr>)\<rparr>
         in case try_packageJson e packageName of
              Inl err \<Rightarrow>
                frontier e rest
                  (s1\<lparr>proc := verbose [indent 2 '''', ''missing'',
                                 '' \"'' @ join e [packageName, ''package.json''] @ ''\"'']
                                 (proc s1)\<rparr>)
            | Inr packageJson \<Rightarrow>
                frontier e rest
                  (s1\<lparr>acc := Object_assign_opt
                               (Object_assign_opt (acc s1) (pkg_peerDependencies packageJson))
                               (pkg_dependencies packageJson),
                       proc := log_depends ''peer packages'' (pkg_peerDependencies packageJson)
                                 (log_depends ''packages'' (pkg_dependencies packageJson)
                                    (proc s1))\<rparr>))
      else
        frontier e rest
          (s\<lparr>proc := verbose [indent 2 '''', ''skipping'',
                        '' dependencies for package \"'' @ packageName @ ''\", already seen'']
                        (proc s)\<rparr>))"

text \<open>
  Every dependency name that a manifest readable in this file system declares. The set is
  finite because the file system is; it bounds the packages a resolution can reach.
\<close>

definition declared_names :: "env \<Rightarrow> string set" where
  "declared_names e =
     (\<Union>(p, data) \<in> set (fs_files e).
        case parse_package e data of
          Inl err \<Rightarrow> {}
        | Inr pj \<Rightarrow>
            (case pkg_peerDependencies pj of None \<Rightarrow> {} | Some d \<Rightarrow> set (Object_keys d)) \<union>
            (case pkg_dependencies pj of None \<Rightarrow> {} | Some d \<Rightarrow> set (Object_keys d)))"

text \<open>
  Facts about one pass over the frontier, needed to see that the recursion of
  \<^verbatim>\<open>getDependencies\<close> ends: the pass marks every frontier name as parsed, it only
  collects names declared by readable manifests, and it collects nothing when every
  frontier name was parsed before.
\<close>

lemma keys_set_property: "fst ` set (set_property m k v) = insert k (fst ` set m)"
  by (induction m k v rule: set_property.induct) auto

lemma keys_Object_assign_img:
  "fst ` set (Object_assign t s) = fst ` set t \<union> fst ` set s"
  by (induction t s rule: Object_assign.induct) (simp_all add: keys_set_property)

lemma keys_Object_assign:
  "set (Object_keys (Object_assign t s)) = set (Object_keys t) \<union> set (Object_keys s)"
  by (simp add: Object_keys_def keys_Object_assign_img)

lemma finite_declared_names: "finite (declared_names e)"
  unfolding declared_names_def
  by (auto simp: Object_keys_def split: sum.splits option.splits)

lemma try_packageJson_declared:
  assumes "try_packageJson e k = Inr pj"
  shows "(case pkg_peerDependencies pj of None \<Rightarrow> {} | Some d \<Rightarrow> set (Object_keys d)) \<union>
         (case pkg_dependencies pj of None \<Rightarrow> {} | Some d \<Rightarrow> set (Object_keys d))
         \<subseteq> declared_names e"
proof -
  from assms obtain fn data where rd: "map_of (fs_files e) fn = Some data"
    and ps: "parse_package e data = Inr pj"
    by (auto simp: try_packageJson_def getFile_def split: sum.splits option.splits)
  from rd have "(fn, data) \<in> set (fs_files e)" by (rule map_of_SomeD)
  with ps show ?thesis
    unfolding declared_names_def by force
qed

lemma keys_merge_manifest:
  assumes "try_packageJson e k = Inr pj"
  shows "set (Object_keys (Object_assign_opt (Object_assign_opt a (pkg_peerDependencies pj))
            (pkg_dependencies pj))) \<subseteq> set (Object_keys a) \<union> declared_names e"
  using try_packageJson_declared[OF assms]
  by (cases "pkg_peerDependencies pj"; cases "pkg_dependencies pj")
     (auto simp: keys_Object_assign)

lemma frontier_parsedPackages:
  "parsedPackages (frontier e ks s) = parsedPackages s \<union> set ks"
  by (induction e ks s rule: frontier.induct) (auto simp: Let_def split: sum.splits)

lemma frontier_acc_keys:
  "set (Object_keys (acc (frontier e ks s))) \<subseteq> set (Object_keys (acc s)) \<union> declared_names e"
proof (induction e ks s rule: frontier.induct)
  case (1 e s)
  then show ?case by simp
next
  case (2 e packageName rest s)
  show ?case
  proof (cases "packageName \<in> parsedPackages s")
    case True
    with 2(3) show ?thesis by simp
  next
    case False
    show ?thesis
    proof (cases "try_packageJson e packageName")
      case (Inl err)
      with False 2(1)[OF False refl Inl] show ?thesis by (simp add: Let_def)
    next
      case (Inr pj)
      with False 2(2)[OF False refl Inr] keys_merge_manifest[OF Inr, of "acc s"] show ?thesis
        by (simp add: Let_def) blast
    qed
  qed
qed

lemma frontier_all_seen:
  "set ks \<subseteq> parsedPackages s \<Longrightarrow> acc (frontier e ks s) = acc s"
  by (induction e ks s rule: frontier.induct) auto

text \<open>
  \<^verbatim>\<open>getDependencies(packages, parsedPackages)\<close>: one pass over the frontier, then, if
  anything was collected, a recursive call on what was collected, with the same set; the
  result of the recursive call is assigned over the local object. The recursion is
  well-founded: each call that recurses has parsed a name that was not parsed before,
  out of the finitely many names of the frontier and of the readable manifests.
\<close>

function getDependencies :: "env \<Rightarrow> StringMap \<Rightarrow> walk \<Rightarrow> walk" where
  "getDependencies e packages s =
     (let s1 = frontier e (Object_keys packages) (s\<lparr>acc := []\<rparr>)
      in if Object_keys (acc s1) \<noteq> []
         then (let s2 = getDependencies e (acc s1) s1
               in s2\<lparr>acc := Object_assign (acc s1) (acc s2)\<rparr>)
         else s1)"
  by pat_completeness auto
termination
proof (relation "measure (\<lambda>(e, packages, s).
         card ((declared_names e \<union> set (Object_keys packages)) - parsedPackages s))")
  show "wf (measure (\<lambda>(e, packages, s).
         card ((declared_names e \<union> set (Object_keys packages)) - parsedPackages s)))"
    by simp
next
  fix e :: env and packages :: StringMap and s :: walk and s1 :: walk
  assume s1: "s1 = frontier e (Object_keys packages) (s\<lparr>acc := []\<rparr>)"
    and ne: "Object_keys (acc s1) \<noteq> []"
  let ?D = "declared_names e" and ?K = "set (Object_keys packages)" and ?P = "parsedPackages s"
  have P1: "parsedPackages s1 = ?P \<union> ?K"
    by (simp add: s1 frontier_parsedPackages)
  have K1: "set (Object_keys (acc s1)) \<subseteq> ?D"
    using frontier_acc_keys[of e "Object_keys packages" "s\<lparr>acc := []\<rparr>"]
    by (simp add: s1 Object_keys_def)
  have "\<not> ?K \<subseteq> ?P"
  proof
    assume "?K \<subseteq> ?P"
    then have "acc s1 = []"
      using frontier_all_seen[of "Object_keys packages" "s\<lparr>acc := []\<rparr>" e] by (simp add: s1)
    with ne show False by (simp add: Object_keys_def)
  qed
  then obtain k where k: "k \<in> ?K" "k \<notin> ?P" by blast
  have "(?D \<union> set (Object_keys (acc s1))) - parsedPackages s1 \<subset> (?D \<union> ?K) - ?P"
    using K1 k unfolding P1 by blast
  moreover have "finite ((?D \<union> ?K) - ?P)"
    by (simp add: finite_declared_names)
  ultimately have "card ((?D \<union> set (Object_keys (acc s1))) - parsedPackages s1)
                   < card ((?D \<union> ?K) - ?P)"
    by (rule psubset_card_mono[rotated])
  then show "((e, acc s1, s1), (e, packages, s)) \<in> measure (\<lambda>(e, packages, s).
         card ((declared_names e \<union> set (Object_keys packages)) - parsedPackages s))"
    by simp
qed

declare getDependencies.simps [simp del]

section \<open>Running the asynchronous tasks\<close>

text \<open>
  A phase of the pipeline is an \<^verbatim>\<open>async\<close> function on the shared project object: it either
  throws or gives the project back with more entries, and it may log. \<open>await\<close> continues
  with the value of an operation that may throw; \<open>and_then\<close> continues after a phase.

  The tasks that the code starts together and joins with \<^verbatim>\<open>Promise.all\<close> are run here one
  after the other, in the order in which the code starts them, and the first failure is
  the failure of the whole. Under Node the appends and log lines of such tasks may
  interleave in another order; which entries are appended, and whether the whole fails,
  does not depend on it. What a task had appended before it failed is dropped with the
  failure: after a failure the project is never read again, only the console is.
\<close>

type_synonym 'a outcome = "(error + 'a) \<times> world"

definition await :: "error + 'a \<Rightarrow> world \<Rightarrow> ('a \<Rightarrow> 'b outcome) \<Rightarrow> 'b outcome" where
  "await r w k = (case r of Inl err \<Rightarrow> (Inl err, w) | Inr x \<Rightarrow> k x)"

definition and_then :: "'a outcome \<Rightarrow> ('a \<Rightarrow> world \<Rightarrow> 'b outcome) \<Rightarrow> 'b outcome" where
  "and_then r k = (case r of (Inl err, w) \<Rightarrow> (Inl err, w) | (Inr x, w) \<Rightarrow> k x w)"

fun run_tasks ::
  "('a \<Rightarrow> ProjectJson \<Rightarrow> world \<Rightarrow> ProjectJson outcome) \<Rightarrow> 'a list \<Rightarrow>
   ProjectJson \<Rightarrow> world \<Rightarrow> ProjectJson outcome" where
  "run_tasks task [] p w = (Inr p, w)"
| "run_tasks task (x # xs) p w = and_then (task x p w) (run_tasks task xs)"

definition new_Error :: "env \<Rightarrow> string \<Rightarrow> error" where
  "new_Error e msg = Error msg (''Error: '' @ msg @ trace e)"

section \<open>Creating the project (\<^verbatim>\<open>createProject\<close>)\<close>

definition empty_project :: ProjectJson where
  "empty_project =
     \<lparr>dependencies = \<lparr>production = [], development = []\<rparr>,
      dojorc = None,
      environmentFiles = [],
      files = [],
      index = [],
      package = \<lparr>pkg_name = None, pkg_dependencies = None, pkg_devDependencies = None,
                 pkg_peerDependencies = None, pkg_typings = None, pkg_types = None\<rparr>,
      tsconfig = \<lparr>compilerOptions = None, tsconfig_include = None\<rparr>\<rparr>"

definition missing_files_message :: "string \<Rightarrow> string" where
  "missing_files_message dir =
     ''Path \"'' @ dir @ ''\" does not contain a \"tsconfig.json\" and \"package.json\".''"

definition createProject :: "env \<Rightarrow> world \<Rightarrow> ProjectJson outcome" where
  "createProject e w =
     (if \<not> (exists_file e ''package.json'' \<and> exists_file e ''tsconfig.json'')
      then (Inl (new_Error e (missing_files_message (cwd w))), w)
      else
        (let w1 = verbose [indent 1 '''', ''reading'', '' \"package.json\"''] w in
         await (getFile e ''package.json'') w1 (\<lambda>t1.
         await (parse_package e t1) w1 (\<lambda>pkg.
         (let w2 = verbose [indent 1 '''', ''reading'', '' \"tsconfig.json\"''] w1 in
          await (getFile e ''tsconfig.json'') w2 (\<lambda>t2.
          await (parse_tsconfig e t2) w2 (\<lambda>ts.
          (let p = empty_project\<lparr>package := pkg, tsconfig := ts\<rparr> in
           if exists_file e ''.dojorc''
           then (let w3 = verbose [indent 1 '''', ''reading'', '' \".dojorc\"''] w2 in
                 await (getFile e ''.dojorc'') w3 (\<lambda>t3.
                 await (parse_json e t3) w3 (\<lambda>rc.
                 (Inr (p\<lparr>dojorc := Some rc\<rparr>), w3))))
           else (Inr p, w2)))))))))"

section \<open>Library files (\<^verbatim>\<open>addLibFiles\<close>)\<close>

definition push_environmentFile :: "ProjectFile \<Rightarrow> ProjectJson \<Rightarrow> ProjectJson" where
  "push_environmentFile f p = p\<lparr>environmentFiles := environmentFiles p @ [f]\<rparr>"

text \<open>The task started for one entry of \<^verbatim>\<open>compilerOptions.lib\<close>.\<close>

definition lib_task :: "env \<Rightarrow> string \<Rightarrow> ProjectJson \<Rightarrow> world \<Rightarrow> ProjectJson outcome" where
  "lib_task e l p w =
     (let filename = ''lib.'' @ l @ ''.d.ts'' in
      await (getFile e (join e [''node_modules'', ''typescript'', ''lib'', filename])) w (\<lambda>data.
        (Inr (push_environmentFile (createProjectFile filename data Lib) p),
         verbose [indent 1 '''', ''adding'', '' lib \"'' @ l @ ''\"''] w)))"

definition addLibFiles :: "env \<Rightarrow> ProjectJson \<Rightarrow> world \<Rightarrow> ProjectJson outcome" where
  "addLibFiles e p w =
     (case compilerOptions (tsconfig p) of
        None \<Rightarrow> (Inr p, w)
      | Some opts \<Rightarrow>
          (case lib opts of
             None \<Rightarrow> (Inr p, w)
           | Some libs \<Rightarrow> run_tasks (lib_task e) libs p w))"

section \<open>File types (\<^verbatim>\<open>getProjectFileType\<close>)\<close>

text \<open>A regular expression of the form \<^verbatim>\<open>/literal$/\<close> tests for a suffix.\<close>

definition ends_with :: "string \<Rightarrow> string \<Rightarrow> bool" where
  "ends_with s suffix =
     (length suffix \<le> length s \<and> drop (length s - length suffix) s = suffix)"

definition getProjectFileType :: "env \<Rightarrow> string \<Rightarrow> ProjectFileType" where
  "getProjectFileType e n =
     (let ext = extname e n in
      if ext = ''.ts'' then (if ends_with n ''.d.ts'' then Definition else TypeScript)
      else if ext = ''.html'' then HTML
      else if ext = ''.css'' then CSS
      else if ext = ''.json'' then JSON
      else if ext = ''.xml'' then XML
      else if ext = ''.md'' then Markdown
      else PlainText)"

section \<open>Project files (\<^verbatim>\<open>addProjectFiles\<close>)\<close>

text \<open>
  \<^verbatim>\<open>String.prototype.replace\<close> expands the replacement text: \<^verbatim>\<open>$$\<close> is a dollar sign,
  \<^verbatim>\<open>$&\<close> the match, \<^verbatim>\<open>$`\<close> and \<^verbatim>\<open>$'\<close> the text before and after the match, and
  \<^verbatim>\<open>$1\<close> or \<^verbatim>\<open>$01\<close> the first group (empty when the group did not take part). The
  expression \<^verbatim>\<open>/(\.d)?\.ts$/\<close> has one group, so any other \<^verbatim>\<open>$\<close> stands for itself.
  The arguments are the match, the text before it, the text after it and the group.
\<close>

fun get_substitution :: "string \<Rightarrow> string \<Rightarrow> string \<Rightarrow> string \<Rightarrow> string \<Rightarrow> string" where
  "get_substitution m b a g [] = []"
| "get_substitution m b a g [c] = [c]"
| "get_substitution m b a g (c # d # r) =
     (if c \<noteq> CHR ''$'' then c # get_substitution m b a g (d # r)
      else if d = CHR ''$'' then CHR ''$'' # get_substitution m b a g r
      else if d = CHR ''&'' then m @ get_substitution m b a g r
      else if d = CHR ''`'' then b @ get_substitution m b a g r
      else if d = CHR 0x27 then a @ get_substitution m b a g r
      else if d = CHR ''1'' then g @ get_substitution m b a g r
      else if d = CHR ''0'' then
        (case r of
           [] \<Rightarrow> ''$0''
         | d2 # r2 \<Rightarrow>
             if d2 = CHR ''1'' then g @ get_substitution m b a g r2
             else CHR ''$'' # get_substitution m b a g (d # r))
      else CHR ''$'' # get_substitution m b a g (d # r))"

text \<open>
  \<^verbatim>\<open>pattern.replace(/(\.d)?\.ts$/, `.{${ includeExtensions }}`)\<close>: the expression can only
  match the last five characters \<^verbatim>\<open>.d.ts\<close> or, failing that, the last three \<^verbatim>\<open>.ts\<close>.
\<close>

definition rewrite_include :: "string \<Rightarrow> string \<Rightarrow> string" where
  "rewrite_include includeExtensions pattern =
     (let replacement = ''.{'' @ includeExtensions @ ''}'' in
      if ends_with pattern ''.d.ts'' then
        (let front = take (length pattern - 5) pattern
         in front @ get_substitution ''.d.ts'' front [] ''.d'' replacement)
      else if ends_with pattern ''.ts'' then
        (let front = take (length pattern - 3) pattern
         in front @ get_substitution ''.ts'' front [] [] replacement)
      else pattern)"

fun glob_all :: "env \<Rightarrow> string list \<Rightarrow> error + string list list" where
  "glob_all e [] = Inr []"
| "glob_all e (pattern # patterns) =
     (case getGlob e pattern of
        Inl err \<Rightarrow> Inl err
      | Inr matches \<Rightarrow>
          (case glob_all e patterns of
             Inl err \<Rightarrow> Inl err
           | Inr rest \<Rightarrow> Inr (matches # rest)))"

text \<open>
  \<open>glob_all\<close> is \<^verbatim>\<open>Promise.all\<close> over the globs of the rewritten patterns;
  \<open>file_task\<close> is the task started for one matched file.
\<close>

definition file_task :: "env \<Rightarrow> string \<Rightarrow> ProjectJson \<Rightarrow> world \<Rightarrow> ProjectJson outcome" where
  "file_task e n p w =
     await (getFile e n) w (\<lambda>data.
       (Inr (p\<lparr>files := files p @
               [\<lparr>file_name = n, file_text = data, file_type = getProjectFileType e n\<rparr>]\<rparr>),
        verbose [indent 1 '''', ''adding'', '' project file \"'' @ n @ ''\"''] w))"

definition default_includeExtensions :: string where
  "default_includeExtensions = ''ts,html,css,json,xml,md''"

definition addProjectFiles ::
  "env \<Rightarrow> ProjectJson \<Rightarrow> string option \<Rightarrow> world \<Rightarrow> ProjectJson outcome" where
  "addProjectFiles e p includeExtensions_arg w =
     (let includeExtensions =
            (case includeExtensions_arg of
               None \<Rightarrow> default_includeExtensions
             | Some c \<Rightarrow> c)
      in case tsconfig_include (tsconfig p) of
           None \<Rightarrow> (Inr p, w)
         | Some patterns \<Rightarrow>
             await (glob_all e (map (rewrite_include includeExtensions) patterns)) w (\<lambda>globs.
               run_tasks (file_task e) (concat globs) p w))"

section \<open>Types packages (\<^verbatim>\<open>addTypesFiles\<close>)\<close>

text \<open>\<^verbatim>\<open>a || b\<close> on optional strings: \<^verbatim>\<open>undefined\<close> and the empty string are falsy.\<close>

definition truthy :: "string option \<Rightarrow> bool" where
  "truthy a = (case a of None \<Rightarrow> False | Some s \<Rightarrow> s \<noteq> [])"

definition js_or :: "string option \<Rightarrow> string option \<Rightarrow> string option" where
  "js_or a b = (if truthy a then a else b)"

text \<open>
  The \<^verbatim>\<open>else\<close> branch: the warning, then the \<^verbatim>\<open>try\<close> block that looks for an
  \<^verbatim>\<open>index.d.ts\<close>, whose \<^verbatim>\<open>catch\<close> is empty.
\<close>

definition try_index_d_ts :: "env \<Rightarrow> string \<Rightarrow> world \<Rightarrow> error + (string \<times> string)" where
  "try_index_d_ts e packageName w =
     (case requireResolve e (normalize e (join e [packageName, ''index.d.ts''])) of
        Inl err \<Rightarrow> Inl err
      | Inr resolved \<Rightarrow>
          (let filename = relative e (cwd w) resolved in
           case getFile e filename of
             Inl err \<Rightarrow> Inl err
           | Inr data \<Rightarrow> Inr (filename, data)))"

definition no_type_information ::
  "env \<Rightarrow> string \<Rightarrow> string \<Rightarrow> ProjectJson \<Rightarrow> world \<Rightarrow> ProjectJson outcome" where
  "no_type_information e packageName packageJsonFilename p w =
     (let w1 = log [indent 1 '''', ''warn'',
                 '' \"'' @ packageJsonFilename @ ''\" does not contain type information''] w in
      case try_index_d_ts e packageName w1 of
        Inl err \<Rightarrow> (Inr p, w1)
      | Inr (filename, data) \<Rightarrow>
          (Inr (push_environmentFile (createProjectFile filename data Definition) p),
           verbose [indent 1 '''', ''adding'', '' type file \"'' @ filename @ ''\"''] w1))"

text \<open>
  The task started for one entry of \<^verbatim>\<open>compilerOptions.types\<close>. Nothing in it is inside a
  \<^verbatim>\<open>try\<close> block except the lookup of \<^verbatim>\<open>index.d.ts\<close>.
\<close>

definition types_task :: "env \<Rightarrow> string \<Rightarrow> ProjectJson \<Rightarrow> world \<Rightarrow> ProjectJson outcome" where
  "types_task e packageName p w =
     (let w1 = verbose [indent 1 '''', ''resolving'',
                 '' types for package \"'' @ packageName @ ''\"''] w in
      await (requireResolve e (join e [packageName, ''package.json''])) w1 (\<lambda>resolved.
      (let packageJsonFilename = relative e (cwd w1) resolved in
       await (getFile e packageJsonFilename) w1 (\<lambda>data.
       await (parse_package e data) w1 (\<lambda>packageJson.
       (let p1 = push_environmentFile
                   (createProjectFile packageJsonFilename (stringify_package e packageJson) JSON) p;
            typings = js_or (pkg_typings packageJson) (pkg_types packageJson)
        in case typings of
             None \<Rightarrow> no_type_information e packageName packageJsonFilename p1 w1
           | Some entry \<Rightarrow>
               if entry = [] then no_type_information e packageName packageJsonFilename p1 w1
               else
                 await (requireResolve e (normalize e (join e [packageName, entry]))) w1
                   (\<lambda>resolved_typings.
                 (let filename = relative e (cwd w1) resolved_typings in
                  await (getFile e filename) w1 (\<lambda>data.
                    (Inr (push_environmentFile (createProjectFile filename data Definition) p1),
                     verbose [indent 1 '''', ''adding'', '' type file \"'' @ filename @ ''\"'']
                       w1))))))))))"

definition addTypesFiles :: "env \<Rightarrow> ProjectJson \<Rightarrow> world \<Rightarrow> ProjectJson outcome" where
  "addTypesFiles e p w =
     (case compilerOptions (tsconfig p) of
        None \<Rightarrow> (Inr p, w)
      | Some opts \<Rightarrow>
          (case types opts of
             None \<Rightarrow> (Inr p, w)
           | Some packageNames \<Rightarrow> run_tasks (types_task e) packageNames p w))"

section \<open>Definition files (\<^verbatim>\<open>addDefinitionFiles\<close>)\<close>

text \<open>\<^verbatim>\<open>DOJO_EXCLUDE.test(filename)\<close>, for \<^verbatim>\<open>/@dojo\/loader\/interfaces\.d\.ts$/\<close>.\<close>

definition DOJO_EXCLUDE :: "string \<Rightarrow> bool" where
  "DOJO_EXCLUDE filename = ends_with filename ''@dojo/loader/interfaces.d.ts''"

definition definition_task ::
  "env \<Rightarrow> string \<Rightarrow> ProjectJson \<Rightarrow> world \<Rightarrow> ProjectJson outcome" where
  "definition_task e filename p w =
     (if DOJO_EXCLUDE filename then (Inr p, w)
      else
        await (getFile e filename) w (\<lambda>data.
          (Inr (push_environmentFile (createProjectFile filename data Definition) p),
           verbose [indent 1 '''', ''adding'', '' definition file \"'' @ filename @ ''\"''] w)))"

definition addDefinitionFiles :: "env \<Rightarrow> ProjectJson \<Rightarrow> world \<Rightarrow> ProjectJson outcome" where
  "addDefinitionFiles e p w =
     await (getGlob e ''node_modules/{@dojo,@types}/**/*.d.ts'') w (\<lambda>matches.
       run_tasks (definition_task e) matches p w)"

section \<open>Dependencies of the project (\<^verbatim>\<open>addDependencies\<close>)\<close>

text \<open>
  The production set starts from the map already in the project, with the project's own
  \<^verbatim>\<open>peerDependencies\<close> and then its \<^verbatim>\<open>dependencies\<close> assigned over it.
\<close>

definition seed_production :: "ProjectJson \<Rightarrow> StringMap" where
  "seed_production p =
     Object_assign_opt
       (Object_assign_opt (production (dependencies p)) (pkg_peerDependencies (package p)))
       (pkg_dependencies (package p))"

text \<open>
  The development set starts from the project's \<^verbatim>\<open>devDependencies\<close>. Each of the two sets
  is then resolved with an empty set of parsed packages (\<^verbatim>\<open>packageSet.clear()\<close> between
  the two), and the result is assigned over the seed.
\<close>

definition seed_development :: "ProjectJson \<Rightarrow> StringMap" where
  "seed_development p =
     Object_assign_opt (development (dependencies p)) (pkg_devDependencies (package p))"

definition addDependencies :: "env \<Rightarrow> ProjectJson \<Rightarrow> world \<Rightarrow> ProjectJson outcome" where
  "addDependencies e p w =
     (let w1 = verbose [indent 1 '''', ''resolving'', '' production dependecies:''] w;
          production1 = seed_production p;
          s1 = getDependencies e production1 \<lparr>acc = [], parsedPackages = {}, proc = w1\<rparr>;
          production2 = Object_assign production1 (acc s1);
          w2 = verbose [indent 1 '''', ''resolving'', '' development dependecies:''] (proc s1);
          development1 = seed_development p;
          s2 = getDependencies e development1 \<lparr>acc = [], parsedPackages = {}, proc = w2\<rparr>;
          development2 = Object_assign development1 (acc s2)
      in (Inr (p\<lparr>dependencies := \<lparr>production = production2, development = development2\<rparr>\<rparr>),
          proc s2))"

section \<open>The index (\<^verbatim>\<open>setProjectIndex\<close>)\<close>

definition default_index :: string where
  "default_index = ''./src/index.html''"

definition setProjectIndex :: "ProjectJson \<Rightarrow> string option \<Rightarrow> world \<Rightarrow> ProjectJson \<times> world" where
  "setProjectIndex p index_opt w =
     (let i = (case index_opt of None \<Rightarrow> default_index | Some i \<Rightarrow> i) in
      case find (\<lambda>f. file_name f = i) (files p) of
        None \<Rightarrow>
          (p, log [indent 1 '''', ''error'', '' unable to find index \"'' @ i @ ''\" in project.''] w)
      | Some f \<Rightarrow> (p\<lparr>index := i\<rparr>, w))"

section \<open>The command (\<^verbatim>\<open>exportProject\<close>)\<close>

text \<open>\<^verbatim>\<open>name.replace(/[\/\\]/, '-')\<close>: the expression is not global.\<close>

fun replace_separator :: "string \<Rightarrow> string" where
  "replace_separator [] = []"
| "replace_separator (c # cs) =
     (if c = CHR ''/'' \<or> c = CHR 0x5C then CHR ''-'' # cs else c # replace_separator cs)"

definition outfilename :: "PackageJson \<Rightarrow> string" where
  "outfilename pkg =
     replace_separator
       (case pkg_name pkg of
          None \<Rightarrow> ''bundle''
        | Some n \<Rightarrow> if n = [] then ''bundle'' else n)
       @ ''.project.json''"

definition setFile :: "env \<Rightarrow> string \<Rightarrow> string \<Rightarrow> world \<Rightarrow> string outcome" where
  "setFile e filename contents w =
     (case fs_writeFile e filename contents of
        Some err \<Rightarrow> (Inl err, w)
      | None \<Rightarrow> (Inr filename, w\<lparr>written := written w @ [(filename, contents)]\<rparr>))"

text \<open>
  The five tasks pushed on \<^verbatim>\<open>tasks\<close> and joined by \<^verbatim>\<open>await Promise.all(tasks)\<close>.
\<close>

definition run_phases :: "env \<Rightarrow> ExportArgs \<Rightarrow> ProjectJson \<Rightarrow> world \<Rightarrow> ProjectJson outcome" where
  "run_phases e args p0 w =
     and_then (addLibFiles e p0 w) (\<lambda>p1 w1.
     and_then (addTypesFiles e p1 w1) (\<lambda>p2 w2.
     and_then (addDefinitionFiles e p2 w2) (\<lambda>p3 w3.
     (let w4 = (case content args of
                  None \<Rightarrow> w3
                | Some c \<Rightarrow>
                    if c = [] then w3
                    else verbose [indent 1 '''', ''setting'',
                           '' project file extensions to \"'' @ c @ ''\"''] w3)
      in and_then (addProjectFiles e p3 (content args) w4) (\<lambda>p4 w5.
         addDependencies e p4 w5)))))"

text \<open>
  The \<^verbatim>\<open>try\<close> block up to \<^verbatim>\<open>await Promise.all(tasks)\<close>: change directory, create the
  project, run the five phases.
\<close>

definition gather :: "env \<Rightarrow> ExportArgs \<Rightarrow> world \<Rightarrow> ProjectJson outcome" where
  "gather e args w =
     (let initialCwd = cwd w in
      await (fs_chdir e (project args)) w (\<lambda>dir.
      (let w1 = w\<lparr>cwd := dir\<rparr>;
           w2 = (if cwd w1 \<noteq> initialCwd
                 then verbose [indent 1 '''', ''changing'',
                        '' working directory to \"'' @ project args @ ''\"''] w1
                 else w1)
       in and_then (createProject e w2) (run_phases e args))))"

text \<open>The rest of the \<^verbatim>\<open>try\<close> block: the index, the name of the file, the write.\<close>

definition write_bundle ::
  "env \<Rightarrow> ExportArgs \<Rightarrow> string \<Rightarrow> ProjectJson \<Rightarrow> world \<Rightarrow> string outcome" where
  "write_bundle e args initialCwd p w =
     (case setProjectIndex p (index_arg args) w of
        (p1, w1) \<Rightarrow>
          (let outfile = relative e (cwd w1)
                           (normalize e (join e [initialCwd, out args, outfilename (package p1)]))
           in and_then (setFile e outfile (stringify_project e p1) w1) (\<lambda>f w2.
                (Inr f, log [indent 1 '''', ''exported'',
                          '' to \"'' @ relative e initialCwd outfile @ ''\"\<newline>''] w2))))"

text \<open>\<^verbatim>\<open>e.stack.split('\n')\<close>.\<close>

fun split_lines :: "string \<Rightarrow> string list" where
  "split_lines [] = [[]]"
| "split_lines (c # cs) =
     (if c = CHR 0x0A then [] # split_lines cs
      else (case split_lines cs of
              [] \<Rightarrow> [[c]]
            | l # ls \<Rightarrow> (c # l) # ls))"

text \<open>The \<^verbatim>\<open>catch\<close> block: the first line of the stack, then the others.\<close>

definition log_errored :: "error \<Rightarrow> world \<Rightarrow> world" where
  "log_errored err w =
     (case split_lines (err_stack err) of
        [] \<Rightarrow> log [[], ''\<newline>''] (log [indent 1 '''', ''errored'', '' '', []] w)
      | headline # rest \<Rightarrow>
          log [join_with ''\<newline>'' rest, ''\<newline>'']
            (log [indent 1 '''', ''errored'', '' '', headline] w))"

definition exportProject :: "env \<Rightarrow> ExportArgs \<Rightarrow> world \<Rightarrow> world" where
  "exportProject e args w =
     (let w1 = log [''\<newline>Export project bundle''] (setVerbose (verbose_arg args) w)
      in case and_then (gather e args w1) (write_bundle e args (cwd w1)) of
           (Inl err, w2) \<Rightarrow> log_errored err w2
         | (Inr f, w2) \<Rightarrow> w2)"

section \<open>The rewriting of include patterns, as specified\<close>

text \<open>
  The rewriting of an include pattern in the words of the specification: a trailing
  \<^verbatim>\<open>.d.ts\<close> or \<^verbatim>\<open>.ts\<close> is replaced by the brace expansion of the allow-list. It is
  compared with \<open>rewrite_include\<close>, which follows the code.
\<close>

definition brace_expansion :: "string \<Rightarrow> string \<Rightarrow> string" where
  "brace_expansion extensions pattern =
     (if ends_with pattern ''.d.ts''
      then take (length pattern - 5) pattern @ ''.{'' @ extensions @ ''}''
      else if ends_with pattern ''.ts''
      then take (length pattern - 3) pattern @ ''.{'' @ extensions @ ''}''
      else pattern)"

section \<open>Example projects\<close>

text \<open>
  A small environment in the style of the test suite: module names resolve under
  \<^verbatim>\<open>node_modules\<close>, the contents of a file stand for themselves, and a table says which
  manifest each parses to.
\<close>

definition manifest :: "StringMap option \<Rightarrow> StringMap option \<Rightarrow> PackageJson" where
  "manifest peer deps =
     \<lparr>pkg_name = None, pkg_dependencies = deps, pkg_devDependencies = None,
      pkg_peerDependencies = peer, pkg_typings = None, pkg_types = None\<rparr>"

definition not_json :: error where
  "not_json = Error ''Unexpected token'' ''SyntaxError: Unexpected token''"

definition example_env :: "(string \<times> string) list \<Rightarrow> (string \<Rightarrow> error + PackageJson) \<Rightarrow> env" where
  "example_env fs parse =
     \<lparr>fs_access = (\<lambda>f. f \<in> set (map fst fs)),
      fs_files = fs,
      fs_read_error = (\<lambda>f. Error ''file not found'' ''Error: file not found''),
      fs_writeFile = (\<lambda>f c. None),
      fs_chdir = (\<lambda>d. Inr ''/var/projects/test-project''),
      glob = (\<lambda>p. Inr []),
      requireResolve = (\<lambda>m. Inr (''node_modules/'' @ m)),
      parse_package = parse,
      parse_tsconfig = (\<lambda>t. Inr \<lparr>compilerOptions = None, tsconfig_include = None\<rparr>),
      parse_json = (\<lambda>t. Inr t),
      stringify_package = (\<lambda>p. ''{}''),
      stringify_project = (\<lambda>p. ''{}''),
      extname = (\<lambda>n. []),
      join = join_with ''/'',
      normalize = (\<lambda>p. p),
      relative = (\<lambda>a b. b),
      trace = []\<rparr>"

definition start_world :: world where
  "start_world =
     \<lparr>verboseFlag = False, console = [], cwd = ''/var/projects/test-project'',
      written = [], visits = []\<rparr>"

definition start_walk :: walk where
  "start_walk = \<lparr>acc = [], parsedPackages = {}, proc = start_world\<rparr>"

definition parse_AB :: "string \<Rightarrow> error + PackageJson" where
  "parse_AB t =
     (if t = ''A'' then Inr (manifest None (Some [(''X'', ''1.0.0'')]))
      else if t = ''B'' then Inr (manifest None (Some [(''X'', ''1.0.1'')]))
      else Inl not_json)"

definition env_AB :: env where
  "env_AB = example_env
     [(''node_modules/A/package.json'', ''A''), (''node_modules/B/package.json'', ''B'')] parse_AB"

lemmas example_defs = example_env_def start_world_def start_walk_def manifest_def not_json_def
  try_packageJson_def getFile_def Object_keys_def

definition parse_PY :: "string \<Rightarrow> error + PackageJson" where
  "parse_PY t =
     (if t = ''P'' then Inr (manifest (Some [(''Y'', ''2.0.0'')]) (Some [(''Y'', ''1.0.0'')]))
      else Inl not_json)"

definition env_PY :: env where
  "env_PY = example_env [(''node_modules/P/package.json'', ''P'')] parse_PY"

definition project_PY :: ProjectJson where
  "project_PY = empty_project
     \<lparr>package := manifest (Some [(''Y'', ''2.0.0'')]) (Some [(''Y'', ''1.0.0'')])\<rparr>"

definition parse_cycle :: "string \<Rightarrow> error + PackageJson" where
  "parse_cycle t =
     (if t = ''A'' then Inr (manifest None (Some [(''B'', ''1.0.0'')]))
      else if t = ''B'' then Inr (manifest None (Some [(''A'', ''1.0.0'')]))
      else Inl not_json)"

definition env_cycle :: env where
  "env_cycle = example_env
     [(''node_modules/A/package.json'', ''A''), (''node_modules/B/package.json'', ''B'')]
     parse_cycle"



definition named :: "string \<Rightarrow> PackageJson" where
  "named n = \<lparr>pkg_name = Some n, pkg_dependencies = None, pkg_devDependencies = None,
      pkg_peerDependencies = None, pkg_typings = None, pkg_types = None\<rparr>"

definition default_args :: ExportArgs where
  "default_args =
     \<lparr>content = None, out = ''.'', index_arg = None, project = ''.'', verbose_arg = False\<rparr>"

definition env_no_manifest :: env where
  "env_no_manifest = example_env [(''tsconfig.json'', ''{}'')] (\<lambda>t. Inl not_json)"

definition simple_extname :: "string \<Rightarrow> string" where
  "simple_extname n =
     (if ends_with n ''.ts'' then ''.ts''
      else if ends_with n ''.html'' then ''.html''
      else if ends_with n ''.css'' then ''.css''
      else [])"

definition env_project :: "string list \<Rightarrow> env" where
  "env_project matches =
     (example_env
        ([(''package.json'', ''manifest''), (''tsconfig.json'', ''config'')]
           @ map (\<lambda>n. (n, ''contents of '' @ n)) matches)
        (\<lambda>t. if t = ''manifest'' then Inr (named ''test-package'') else Inl not_json))
     \<lparr>parse_tsconfig :=
        (\<lambda>t. Inr \<lparr>compilerOptions = None, tsconfig_include = Some [''src/**/*.ts'']\<rparr>),
      glob := (\<lambda>pattern. if pattern = ''src/**/*.{ts,html,css,json,xml,md}''
                          then Inr matches else Inr []),
      extname := simple_extname,
      stringify_project := (\<lambda>p. ''index: '' @ index p)\<rparr>"

definition gathered :: "string list \<Rightarrow> ProjectJson" where
  "gathered matches = empty_project
     \<lparr>files := map (\<lambda>n. \<lparr>file_name = n, file_text = ''contents of '' @ n,
                          file_type = getProjectFileType (env_project matches) n\<rparr>) matches,
      package := named ''test-package'',
      tsconfig := \<lparr>compilerOptions = None, tsconfig_include = Some [''src/**/*.ts'']\<rparr>\<rparr>"



definition parse_types :: "string \<Rightarrow> error + PackageJson" where
  "parse_types t =
     (if t = ''baz'' \<or> t = ''qux'' then Inr (manifest None None)
      else if t = ''foo'' then Inr ((manifest None None)\<lparr>pkg_types := Some ''foo.d.ts''\<rparr>)
      else Inl not_json)"

definition env_types :: env where
  "env_types = example_env
     [(''node_modules/baz/package.json'', ''baz''), (''node_modules/foo/package.json'', ''foo''),
      (''node_modules/qux/package.json'', ''qux''),
      (''node_modules/qux/index.d.ts'', ''declare const qux: number;''),
      (''package.json'', ''foo''), (''tsconfig.json'', ''config'')]
     parse_types
     \<lparr>parse_tsconfig :=
        (\<lambda>t. Inr \<lparr>compilerOptions = Some \<lparr>lib = None, types = Some [''baz'', ''foo'']\<rparr>,
                   tsconfig_include = None\<rparr>)\<rparr>"

definition parse_dual :: "string \<Rightarrow> error + PackageJson" where
  "parse_dual t =
     (if t = ''dep1'' then Inr (manifest None (Some [(''dep4'', ''1.0.0'')]))
      else if t = ''dep2'' then Inr (manifest None (Some [(''dep4'', ''1.0.1'')]))
      else if t = ''dep3'' then Inr (manifest None (Some [(''dep4'', ''2.0.0'')]))
      else if t = ''dep4'' then Inr (manifest None (Some []))
      else Inl not_json)"

definition env_dual :: env where
  "env_dual = example_env
     [(''node_modules/dep1/package.json'', ''dep1''), (''node_modules/dep2/package.json'', ''dep2''),
      (''node_modules/dep3/package.json'', ''dep3''), (''node_modules/dep4/package.json'', ''dep4'')]
     parse_dual"

definition project_dual :: ProjectJson where
  "project_dual = empty_project
     \<lparr>package := (manifest (Some [(''dep2'', ''2.0.0'')]) (Some [(''dep1'', ''1.0.0'')]))
                    \<lparr>pkg_devDependencies := Some [(''dep3'', ''0.1.0'')]\<rparr>\<rparr>"

definition parse_deep :: "string \<Rightarrow> error + PackageJson" where
  "parse_deep t =
     (if t = ''dep1'' then
        Inr (manifest None
               (Some [(''dep2'', ''1.0.0''), (''dep3'', ''2.0.0''), (''dep4'', ''1.0.0'')]))
      else if t = ''dep2'' then
        Inr (manifest None (Some [(''dep3'', ''1.0.0''), (''dep4'', ''1.0.0'')]))
      else if t = ''dep3'' then Inr (manifest None (Some [(''dep4'', ''2.0.0'')]))
      else if t = ''dep4'' then Inr (manifest None (Some []))
      else Inl not_json)"

definition env_deep :: env where
  "env_deep = example_env
     [(''node_modules/dep1/package.json'', ''dep1''), (''node_modules/dep2/package.json'', ''dep2''),
      (''node_modules/dep3/package.json'', ''dep3''), (''node_modules/dep4/package.json'', ''dep4'')]
     parse_deep"

definition project_deep :: ProjectJson where
  "project_deep = empty_project\<lparr>package := manifest None (Some [(''dep1'', ''1.0.0'')])\<rparr>"

lemmas run_defs = exportProject_def gather_def run_phases_def createProject_def
  addLibFiles_def addTypesFiles_def addDefinitionFiles_def addProjectFiles_def
  addDependencies_def write_bundle_def setProjectIndex_def setFile_def outfilename_def
  file_task_def getProjectFileType_def rewrite_include_def default_includeExtensions_def
  default_index_def seed_production_def seed_development_def getGlob_def exists_file_def
  await_def and_then_def log_def verbose_def setVerbose_def ends_with_def

section \<open>Properties of the building blocks\<close>

subsection \<open>Object.assign as a map\<close>

lemma map_of_set_property: "map_of (set_property m k v) = (map_of m)(k \<mapsto> v)"
  by (induction m k v rule: set_property.induct) auto

lemma map_of_Object_assign:
  "distinct (map fst s) \<Longrightarrow>
   map_of (Object_assign t s) x = (case map_of s x of Some v \<Rightarrow> Some v | None \<Rightarrow> map_of t x)"
proof (induction t s rule: Object_assign.induct)
  case (1 target)
  then show ?case by simp
next
  case (2 target k v source)
  then have "map_of source k = None"
    by (simp add: map_of_eq_None_iff)
  with 2 show ?case
    by (auto simp: map_of_set_property split: option.splits)
qed

lemma Object_assign_wins:
  assumes "distinct (map fst s)" and "map_of s x = Some v"
  shows "map_of (Object_assign t s) x = Some v"
  using assms by (simp add: map_of_Object_assign)

lemma distinct_set_property:
  "distinct (map fst m) \<Longrightarrow> distinct (map fst (set_property m k v))"
  by (induction m k v rule: set_property.induct) (auto simp: keys_set_property)

lemma distinct_Object_assign:
  "distinct (map fst t) \<Longrightarrow> distinct (map fst (Object_assign t s))"
  by (induction t s rule: Object_assign.induct) (auto simp: distinct_set_property)

lemma Object_assign_Nil [simp]: "Object_assign t [] = t"
  by simp

subsection \<open>Logging leaves the rest of the process alone\<close>

lemma log_fields [simp]:
  "verboseFlag (log t w) = verboseFlag w"
  "cwd (log t w) = cwd w"
  "written (log t w) = written w"
  "visits (log t w) = visits w"
  "console (log t w) = console w @ [concat t]"
  by (simp_all add: log_def)

lemma verbose_fields [simp]:
  "verboseFlag (verbose t w) = verboseFlag w"
  "cwd (verbose t w) = cwd w"
  "written (verbose t w) = written w"
  "visits (verbose t w) = visits w"
  by (simp_all add: verbose_def)

lemma verbose_console:
  "console (verbose t w) = (if verboseFlag w then console w @ [concat t] else console w)"
  by (simp add: verbose_def)

lemma verbose_quiet [simp]: "\<not> verboseFlag w \<Longrightarrow> verbose t w = w"
  by (simp add: verbose_def)

lemma log_depends_fields [simp]:
  "verboseFlag (log_depends what m w) = verboseFlag w"
  "cwd (log_depends what m w) = cwd w"
  "written (log_depends what m w) = written w"
  "visits (log_depends what m w) = visits w"
  by (simp_all add: log_depends_def split: option.splits)

lemma log_depends_quiet [simp]: "\<not> verboseFlag w \<Longrightarrow> log_depends what m w = w"
  by (simp add: log_depends_def split: option.splits)

subsection \<open>One pass over the frontier\<close>

lemma frontier_append: "frontier e (ks @ ks') s = frontier e ks' (frontier e ks s)"
  by (induction e ks s rule: frontier.induct) (simp_all add: Let_def split: sum.splits)

lemma frontier_found:
  assumes "k \<notin> parsedPackages s" and "try_packageJson e k = Inr pj"
  shows "acc (frontier e [k] s) =
           Object_assign_opt (Object_assign_opt (acc s) (pkg_peerDependencies pj))
             (pkg_dependencies pj)"
  using assms by (simp add: Let_def)

lemma frontier_missing:
  assumes "k \<notin> parsedPackages s" and "try_packageJson e k = Inl err"
  shows "acc (frontier e [k] s) = acc s"
  using assms by (simp add: Let_def)

lemma frontier_seen:
  assumes "k \<in> parsedPackages s"
  shows "acc (frontier e [k] s) = acc s"
  using assms by simp

lemma frontier_visits:
  "\<exists>new. visits (proc (frontier e ks s)) = visits (proc s) @ new \<and> distinct new \<and>
         set new = set ks - parsedPackages s"
proof (induction e ks s rule: frontier.induct)
  case (1 e s)
  then show ?case by simp
next
  case (2 e k rest s)
  show ?case
  proof (cases "k \<in> parsedPackages s")
    case True
    with 2(3) obtain new where
      "visits (proc (frontier e (k # rest) s)) = visits (proc s) @ new"
      "distinct new" "set new = set rest - parsedPackages s"
      by auto
    with True show ?thesis by (intro exI[of _ new]) auto
  next
    case False
    let ?w = "verbose [indent 2 '''', ''resolving'',
                '' dependencies for package \"'' @ k @ ''\"'']
                ((proc s)\<lparr>visits := visits (proc s) @ [k]\<rparr>)"
    let ?s1 = "s\<lparr>parsedPackages := insert k (parsedPackages s), proc := ?w\<rparr>"
    have "\<exists>new. visits (proc (frontier e (k # rest) s)) = (visits (proc s) @ [k]) @ new \<and>
            distinct new \<and> set new = set rest - insert k (parsedPackages s)"
    proof (cases "try_packageJson e k")
      case (Inl err)
      from 2(1)[OF False refl Inl] False Inl show ?thesis by (simp add: Let_def)
    next
      case (Inr pj)
      from 2(2)[OF False refl Inr] False Inr show ?thesis by (simp add: Let_def)
    qed
    then obtain new where n: "visits (proc (frontier e (k # rest) s)) = visits (proc s) @ k # new"
      "distinct new" "set new = set rest - insert k (parsedPackages s)"
      by auto
    with False show ?thesis by (intro exI[of _ "k # new"]) auto
  qed
qed


lemma frontier_world:
  "cwd (proc (frontier e ks s)) = cwd (proc s) \<and>
   written (proc (frontier e ks s)) = written (proc s) \<and>
   verboseFlag (proc (frontier e ks s)) = verboseFlag (proc s)"
  by (induction e ks s rule: frontier.induct) (simp_all add: Let_def split: sum.splits)


subsection \<open>The whole resolution\<close>

lemma getDependencies_visits:
  "\<exists>new. visits (proc (getDependencies e packages s)) = visits (proc s) @ new \<and>
         distinct new \<and>
         set new \<inter> parsedPackages s = {} \<and>
         parsedPackages (getDependencies e packages s) = parsedPackages s \<union> set new \<and>
         set new \<subseteq> declared_names e \<union> set (Object_keys packages)"
proof (induction e packages s rule: getDependencies.induct)
  case (1 e packages s)
  let ?s0 = "s\<lparr>acc := []\<rparr>"
  let ?s1 = "frontier e (Object_keys packages) ?s0"
  obtain new1 where n1: "visits (proc ?s1) = visits (proc s) @ new1" "distinct new1"
    "set new1 = set (Object_keys packages) - parsedPackages s"
    using frontier_visits[of e "Object_keys packages" ?s0] by auto
  have P1: "parsedPackages ?s1 = parsedPackages s \<union> set (Object_keys packages)"
    by (simp add: frontier_parsedPackages)
  show ?case
  proof (cases "Object_keys (acc ?s1) \<noteq> []")
    case False
    then have "getDependencies e packages s = ?s1"
      by (simp add: getDependencies.simps[of e packages s])
    with n1 P1 show ?thesis by (intro exI[of _ new1]) auto
  next
    case True
    let ?s2 = "getDependencies e (acc ?s1) ?s1"
    from 1[OF refl True] obtain new2 where n2:
      "visits (proc ?s2) = visits (proc ?s1) @ new2" "distinct new2"
      "set new2 \<inter> parsedPackages ?s1 = {}"
      "parsedPackages ?s2 = parsedPackages ?s1 \<union> set new2"
      "set new2 \<subseteq> declared_names e \<union> set (Object_keys (acc ?s1))"
      by auto
    have K1: "set (Object_keys (acc ?s1)) \<subseteq> declared_names e"
      using frontier_acc_keys[of e "Object_keys packages" ?s0] by (simp add: Object_keys_def)
    from True have r: "getDependencies e packages s = ?s2\<lparr>acc := Object_assign (acc ?s1) (acc ?s2)\<rparr>"
      by (simp add: getDependencies.simps[of e packages s] Let_def)
    show ?thesis
      using n1 n2 P1 K1 unfolding r by (intro exI[of _ "new1 @ new2"]) auto
  qed
qed


lemma getDependencies_world:
  "cwd (proc (getDependencies e packages s)) = cwd (proc s) \<and>
   written (proc (getDependencies e packages s)) = written (proc s) \<and>
   verboseFlag (proc (getDependencies e packages s)) = verboseFlag (proc s)"
proof (induction e packages s rule: getDependencies.induct)
  case (1 e packages s)
  let ?s1 = "frontier e (Object_keys packages) (s\<lparr>acc := []\<rparr>)"
  have q1: "cwd (proc ?s1) = cwd (proc s)" "written (proc ?s1) = written (proc s)"
    "verboseFlag (proc ?s1) = verboseFlag (proc s)"
    using frontier_world[of e "Object_keys packages" "s\<lparr>acc := []\<rparr>"] by auto
  show ?case
  proof (cases "Object_keys (acc ?s1) \<noteq> []")
    case False
    with q1 show ?thesis by (simp add: getDependencies.simps[of e packages s])
  next
    case True
    from 1[OF refl True] q1 True show ?thesis
      by (simp add: getDependencies.simps[of e packages s] Let_def)
  qed
qed

declare frontier.simps [simp del]

subsection \<open>What a phase leaves unchanged\<close>

definition frame :: "ProjectJson \<Rightarrow> world \<Rightarrow> ProjectJson outcome \<Rightarrow> bool" where
  "frame p w r =
     (written (snd r) = written w \<and> cwd (snd r) = cwd w \<and>
      verboseFlag (snd r) = verboseFlag w \<and>
      (case fst r of
         Inl err \<Rightarrow> True
       | Inr p' \<Rightarrow> index p' = index p \<and> tsconfig p' = tsconfig p \<and> package p' = package p))"

lemma frame_refl: "frame p w (Inr p, w)"
  by (simp add: frame_def)

lemma frame_trans:
  assumes "frame p w (Inr p1, w1)" and "frame p1 w1 r"
  shows "frame p w r"
  using assms by (auto simp: frame_def split: sum.splits)

lemma frame_and_then:
  assumes "frame p w r" and "\<And>p1 w1. frame p1 w1 (k p1 w1)"
  shows "frame p w (and_then r k)"
proof (cases r)
  case (Pair a w1)
  show ?thesis
  proof (cases a)
    case (Inl err)
    with Pair assms(1) show ?thesis by (simp add: and_then_def frame_def)
  next
    case (Inr p1)
    with Pair assms(1) have "frame p w (Inr p1, w1)" by simp
    from frame_trans[OF this assms(2)] Pair Inr show ?thesis
      by (simp add: and_then_def)
  qed
qed

lemma run_tasks_frame:
  assumes "\<And>x p w. frame p w (task x p w)"
  shows "frame p w (run_tasks task xs p w)"
proof (induction xs arbitrary: p w)
  case Nil
  then show ?case by (simp add: frame_def)
next
  case (Cons x xs)
  show ?case
    by (simp, rule frame_and_then[OF assms]) (rule Cons.IH)
qed

lemma frame_await:
  assumes "\<And>x. frame p w (k x)"
  shows "frame p w (await r w k)"
  using assms by (cases r) (simp_all add: await_def frame_def)

lemma push_environmentFile_fields [simp]:
  "index (push_environmentFile f p) = index p"
  "tsconfig (push_environmentFile f p) = tsconfig p"
  "package (push_environmentFile f p) = package p"
  "files (push_environmentFile f p) = files p"
  "dependencies (push_environmentFile f p) = dependencies p"
  "dojorc (push_environmentFile f p) = dojorc p"
  "environmentFiles (push_environmentFile f p) = environmentFiles p @ [f]"
  by (simp_all add: push_environmentFile_def)

lemma lib_task_frame: "frame p w (lib_task e l p w)"
  unfolding lib_task_def Let_def by (rule frame_await) (simp add: frame_def)

lemma addLibFiles_frame: "frame p w (addLibFiles e p w)"
proof (cases "compilerOptions (tsconfig p)")
  case None
  then show ?thesis by (simp add: addLibFiles_def frame_refl)
next
  case (Some opts)
  then show ?thesis
    by (cases "lib opts")
       (simp_all add: addLibFiles_def frame_refl run_tasks_frame[OF lib_task_frame])
qed

lemma no_type_information_frame:
  "frame p w (no_type_information e packageName fn p w)"
  by (simp add: no_type_information_def Let_def frame_def split: sum.splits prod.splits)

lemma typings_frame:
  "frame p w
     (await (requireResolve e m) w (\<lambda>resolved_typings.
        await (getFile e (relative e (cwd w) resolved_typings)) w (\<lambda>data.
          (Inr (push_environmentFile
                  (createProjectFile (relative e (cwd w) resolved_typings) data Definition) p),
           verbose t w))))"
  by (intro frame_await) (simp add: frame_def)

lemma types_task_frame: "frame p w (types_task e packageName p w)"
proof -
  let ?w1 = "verbose [indent 1 '''', ''resolving'',
                 '' types for package \"'' @ packageName @ ''\"''] w"
  have w1: "frame p w (Inr p, ?w1)"
    by (simp add: frame_def)
  have "frame p ?w1 (types_task e packageName p w)"
    unfolding types_task_def Let_def
  proof (intro frame_await)
    fix resolved data packageJson
    let ?fn = "relative e (cwd ?w1) resolved"
    let ?p1 = "push_environmentFile
                 (createProjectFile ?fn (stringify_package e packageJson) JSON) p"
    have p1: "frame p ?w1 (Inr ?p1, ?w1)"
      by (simp add: frame_def)
    have nt: "frame p ?w1 (no_type_information e packageName ?fn ?p1 ?w1)"
      by (rule frame_trans[OF p1 no_type_information_frame])
    have ty: "\<And>m t. frame p ?w1
     (await (requireResolve e m) ?w1 (\<lambda>resolved_typings.
        await (getFile e (relative e (cwd ?w1) resolved_typings)) ?w1 (\<lambda>data.
          (Inr (push_environmentFile
                  (createProjectFile (relative e (cwd ?w1) resolved_typings) data Definition) ?p1),
           verbose (t resolved_typings) ?w1))))"
      by (intro frame_await) (simp add: frame_def)
    show "frame p ?w1
       (case js_or (pkg_typings packageJson) (pkg_types packageJson) of
          None \<Rightarrow> no_type_information e packageName ?fn ?p1 ?w1
        | Some entry \<Rightarrow>
            if entry = [] then no_type_information e packageName ?fn ?p1 ?w1
            else await (requireResolve e (normalize e (join e [packageName, entry]))) ?w1
                   (\<lambda>resolved_typings.
                      await (getFile e (relative e (cwd ?w1) resolved_typings)) ?w1
                        (\<lambda>data.
                           (Inr (push_environmentFile
                                  (createProjectFile (relative e (cwd ?w1) resolved_typings)
                                     data Definition) ?p1),
                            verbose [indent 1 '''', ''adding'',
                              '' type file \"'' @ relative e (cwd ?w1) resolved_typings @ ''\"'']
                              ?w1))))"
    proof (cases "js_or (pkg_typings packageJson) (pkg_types packageJson)")
      case None
      with nt show ?thesis by simp
    next
      case (Some entry)
      show ?thesis
      proof (cases "entry = []")
        case True
        with Some nt show ?thesis by simp
      next
        case False
        with Some ty show ?thesis by simp
      qed
    qed
  qed
  from frame_trans[OF w1 this] show ?thesis .
qed

lemma addTypesFiles_frame: "frame p w (addTypesFiles e p w)"
proof (cases "compilerOptions (tsconfig p)")
  case None
  then show ?thesis by (simp add: addTypesFiles_def frame_refl)
next
  case (Some opts)
  then show ?thesis
    by (cases "types opts")
       (simp_all add: addTypesFiles_def frame_refl run_tasks_frame[OF types_task_frame])
qed

lemma definition_task_frame: "frame p w (definition_task e f p w)"
proof (cases "DOJO_EXCLUDE f")
  case True
  then show ?thesis by (simp add: definition_task_def frame_refl)
next
  case False
  then show ?thesis
    by (simp add: definition_task_def, intro frame_await) (simp add: frame_def)
qed

lemma addDefinitionFiles_frame: "frame p w (addDefinitionFiles e p w)"
  unfolding addDefinitionFiles_def
  by (rule frame_await) (rule run_tasks_frame, rule definition_task_frame)

lemma file_task_frame: "frame p w (file_task e n p w)"
  unfolding file_task_def by (rule frame_await) (simp add: frame_def)

lemma addProjectFiles_frame: "frame p w (addProjectFiles e p c w)"
proof (cases "tsconfig_include (tsconfig p)")
  case None
  then show ?thesis by (simp add: addProjectFiles_def frame_refl)
next
  case (Some patterns)
  then show ?thesis
    by (simp add: addProjectFiles_def, intro frame_await)
       (rule run_tasks_frame[OF file_task_frame])
qed

lemma addDependencies_frame: "frame p w (addDependencies e p w)"
  by (simp add: addDependencies_def Let_def frame_def getDependencies_world)

lemma createProject_world:
  "written (snd (createProject e w)) = written w \<and> cwd (snd (createProject e w)) = cwd w \<and>
   verboseFlag (snd (createProject e w)) = verboseFlag w"
  by (simp add: createProject_def Let_def await_def split: sum.splits)

lemma createProject_result:
  assumes "createProject e w = (Inr p, w')"
  shows "index p = [] \<and> files p = [] \<and> environmentFiles p = [] \<and>
         dependencies p = \<lparr>production = [], development = []\<rparr>"
  using assms
  by (auto simp: createProject_def Let_def await_def empty_project_def
      split: sum.splits if_splits)

lemma run_phases_frame: "frame p w (run_phases e args p w)"
proof -
  have last: "\<And>p3 w3. frame p3 w3
     (let w4 = (case content args of
                  None \<Rightarrow> w3
                | Some c \<Rightarrow>
                    if c = [] then w3
                    else verbose [indent 1 '''', ''setting'',
                           '' project file extensions to \"'' @ c @ ''\"''] w3)
      in and_then (addProjectFiles e p3 (content args) w4) (\<lambda>p4 w5.
         addDependencies e p4 w5))"
  proof -
    fix p3 w3
    let ?w4 = "(case content args of
                  None \<Rightarrow> w3
                | Some c \<Rightarrow>
                    if c = [] then w3
                    else verbose [indent 1 '''', ''setting'',
                           '' project file extensions to \"'' @ c @ ''\"''] w3)"
    have a: "frame p3 w3 (Inr p3, ?w4)"
      by (simp add: frame_def split: option.splits)
    have b: "frame p3 ?w4 (and_then (addProjectFiles e p3 (content args) ?w4) (\<lambda>p4 w5.
         addDependencies e p4 w5))"
      by (rule frame_and_then[OF addProjectFiles_frame addDependencies_frame])
    from frame_trans[OF a b] show "frame p3 w3
     (let w4 = ?w4
      in and_then (addProjectFiles e p3 (content args) w4) (\<lambda>p4 w5.
         addDependencies e p4 w5))"
      by (simp add: Let_def)
  qed
  show ?thesis
    unfolding run_phases_def
    by (intro frame_and_then addLibFiles_frame addTypesFiles_frame addDefinitionFiles_frame last)
qed

lemma gather_written: "written (snd (gather e args w)) = written w"
proof (cases "fs_chdir e (project args)")
  case (Inl err)
  then show ?thesis by (simp add: gather_def await_def)
next
  case (Inr dir)
  let ?w1 = "w\<lparr>cwd := dir\<rparr>"
  let ?w2 = "(if cwd ?w1 \<noteq> cwd w
                 then verbose [indent 1 '''', ''changing'',
                        '' working directory to \"'' @ project args @ ''\"''] ?w1
                 else ?w1)"
  have w2: "written ?w2 = written w" by simp
  have g: "gather e args w = and_then (createProject e ?w2) (run_phases e args)"
    using Inr by (simp add: gather_def await_def Let_def)
  show ?thesis
  proof (cases "createProject e ?w2")
    case (Pair a w3)
    have w3: "written w3 = written w"
      using createProject_world[of e ?w2] Pair w2 by simp
    show ?thesis
    proof (cases a)
      case (Inl err)
      with Pair g w3 show ?thesis by (simp add: and_then_def)
    next
      case (Inr p0)
      with Pair g have "gather e args w = run_phases e args p0 w3"
        by (simp add: and_then_def)
      with run_phases_frame[of p0 w3 e args] w3 show ?thesis
        by (simp add: frame_def)
    qed
  qed
qed

lemma gather_result:
  assumes "gather e args w = (Inr p, w')"
  shows "index p = [] \<and> written w' = written w \<and>
         (\<exists>dir. fs_chdir e (project args) = Inr dir \<and> cwd w' = dir)"
proof (cases "fs_chdir e (project args)")
  case (Inl err)
  with assms show ?thesis by (simp add: gather_def await_def)
next
  case (Inr dir)
  let ?w1 = "w\<lparr>cwd := dir\<rparr>"
  let ?w2 = "(if cwd ?w1 \<noteq> cwd w
                 then verbose [indent 1 '''', ''changing'',
                        '' working directory to \"'' @ project args @ ''\"''] ?w1
                 else ?w1)"
  have w2: "cwd ?w2 = dir" by simp
  have g: "gather e args w = and_then (createProject e ?w2) (run_phases e args)"
    using Inr by (simp add: gather_def await_def Let_def)
  show ?thesis
  proof (cases "createProject e ?w2")
    case (Pair a w3)
    have w3: "cwd w3 = dir"
      using createProject_world[of e ?w2] Pair w2 by simp
    show ?thesis
    proof (cases a)
      case (Inl err)
      with Pair g assms show ?thesis by (simp add: and_then_def)
    next
      case (Inr p0)
      with Pair have c: "createProject e ?w2 = (Inr p0, w3)" by simp
      from Inr Pair g assms have "run_phases e args p0 w3 = (Inr p, w')"
        by (simp add: and_then_def)
      with run_phases_frame[of p0 w3 e args] have "index p = index p0" "cwd w' = cwd w3"
        by (simp_all add: frame_def)
      with createProject_result[OF c] w3 \<open>fs_chdir e (project args) = Inr dir\<close>
        gather_written[of e args w] assms
      show ?thesis by simp
    qed
  qed
qed

lemma split_lines_not_Nil: "split_lines s \<noteq> []"
  by (induction s) (auto split: list.splits)

lemma log_errored_fields [simp]:
  "written (log_errored err w) = written w"
  "cwd (log_errored err w) = cwd w"
  by (simp_all add: log_errored_def split: list.splits)

lemma log_errored_console:
  "console (log_errored err w) = console w @
     [''  errored '' @ hd (split_lines (err_stack err)),
      join_with ''\<newline>'' (tl (split_lines (err_stack err))) @ ''\<newline>'']"
  using split_lines_not_Nil[of "err_stack err"]
  by (cases "split_lines (err_stack err)") (simp_all add: log_errored_def)

lemma exportProject_failed:
  assumes "gather e args (log [''\<newline>Export project bundle''] (setVerbose (verbose_arg args) w))
             = (Inl err, w')"
  shows "exportProject e args w = log_errored err w'" and "written w' = written w"
proof -
  let ?w1 = "log [''\<newline>Export project bundle''] (setVerbose (verbose_arg args) w)"
  show "exportProject e args w = log_errored err w'"
    using assms by (simp add: exportProject_def and_then_def Let_def)
  show "written w' = written w"
    using gather_written[of e args ?w1] assms by (simp add: setVerbose_def)
qed

subsection \<open>File names and the index\<close>

lemma replace_separator_first:
  "CHR ''/'' \<notin> set pre \<Longrightarrow> CHR 0x5C \<notin> set pre \<Longrightarrow> c = CHR ''/'' \<or> c = CHR 0x5C \<Longrightarrow>
   replace_separator (pre @ c # post) = pre @ CHR ''-'' # post"
  by (induction pre) auto

lemma replace_separator_none:
  "CHR ''/'' \<notin> set n \<Longrightarrow> CHR 0x5C \<notin> set n \<Longrightarrow> replace_separator n = n"
  by (induction n) auto

lemma indent_numerals [simp]:
  "indent 1 m = CHR '' '' # CHR '' '' # m"
  "indent 2 m = CHR '' '' # CHR '' '' # CHR '' '' # CHR '' '' # m"
  by (simp_all add: numeral_2_eq_2)

lemma setProjectIndex_missing:
  assumes "\<forall>f\<in>set (files p). file_name f \<noteq> idx"
    and "idx = (case i of None \<Rightarrow> ''./src/index.html'' | Some x \<Rightarrow> x)"
  shows "setProjectIndex p i w =
           (p, log [''  '', ''error'', '' unable to find index \"'' @ idx @ ''\" in project.''] w)"
proof -
  have "find (\<lambda>f. file_name f = idx) (files p) = None"
    using assms(1) by (simp add: find_None_iff)
  moreover have "(case i of None \<Rightarrow> default_index | Some x \<Rightarrow> x) = idx"
    using assms(2) by (simp add: default_index_def split: option.splits)
  ultimately show ?thesis
    by (simp add: setProjectIndex_def Let_def log_def)
qed

lemma setProjectIndex_found:
  assumes "\<exists>f\<in>set (files p). file_name f = idx"
    and "idx = (case i of None \<Rightarrow> ''./src/index.html'' | Some x \<Rightarrow> x)"
  shows "setProjectIndex p i w = (p\<lparr>index := idx\<rparr>, w)"
proof -
  have "find (\<lambda>f. file_name f = idx) (files p) \<noteq> None"
    using assms(1) by (auto simp: find_None_iff)
  moreover have "(case i of None \<Rightarrow> default_index | Some x \<Rightarrow> x) = idx"
    using assms(2) by (simp add: default_index_def split: option.splits)
  ultimately show ?thesis
    by (auto simp: setProjectIndex_def Let_def)
qed

lemma export_after_gather:
  assumes g: "gather e args (log [''\<newline>Export project bundle''] (setVerbose (verbose_arg args) w0))
                = (Inr p, w)"
    and idx: "idx = (case index_arg args of None \<Rightarrow> ''./src/index.html'' | Some x \<Rightarrow> x)"
    and out: "outfile = relative e (cwd w)
                (normalize e (join e [cwd w0, out args, outfilename (package p)]))"
  shows "index p = []"
    and "(\<forall>f\<in>set (files p). file_name f \<noteq> idx) \<Longrightarrow>
         fs_writeFile e outfile (stringify_project e p) = None \<Longrightarrow>
         written (exportProject e args w0) = written w0 @ [(outfile, stringify_project e p)] \<and>
         console (exportProject e args w0) = console w @
            [''  error unable to find index \"'' @ idx @ ''\" in project.'',
             ''  exported to \"'' @ relative e (cwd w0) outfile @ ''\"\<newline>'']"
    and "(\<exists>f\<in>set (files p). file_name f = idx) \<Longrightarrow>
         fs_writeFile e outfile (stringify_project e (p\<lparr>index := idx\<rparr>)) = None \<Longrightarrow>
         written (exportProject e args w0)
            = written w0 @ [(outfile, stringify_project e (p\<lparr>index := idx\<rparr>))]"
proof -
  let ?w1 = "log [''\<newline>Export project bundle''] (setVerbose (verbose_arg args) w0)"
  from gather_result[OF g] have r: "index p = []" "written w = written w0"
    by (simp_all add: setVerbose_def)
  show "index p = []" by (rule r)
  have c1: "cwd ?w1 = cwd w0" by (simp add: setVerbose_def)
  {
    assume m: "\<forall>f\<in>set (files p). file_name f \<noteq> idx"
      and wr: "fs_writeFile e outfile (stringify_project e p) = None"
    have s: "setProjectIndex p (index_arg args) w =
         (p, log [''  '', ''error'', '' unable to find index \"'' @ idx @ ''\" in project.''] w)"
      by (rule setProjectIndex_missing[OF m idx])
    have "exportProject e args w0 =
        log [''  '', ''exported'', '' to \"'' @ relative e (cwd w0) outfile @ ''\"\<newline>'']
          ((log [''  '', ''error'', '' unable to find index \"'' @ idx @ ''\" in project.''] w)
             \<lparr>written := written w @ [(outfile, stringify_project e p)]\<rparr>)"
      using g s wr out c1
      by (simp add: exportProject_def and_then_def write_bundle_def setFile_def Let_def)
    then show "written (exportProject e args w0) = written w0 @ [(outfile, stringify_project e p)] \<and>
          console (exportProject e args w0) = console w @
            [''  error unable to find index \"'' @ idx @ ''\" in project.'',
             ''  exported to \"'' @ relative e (cwd w0) outfile @ ''\"\<newline>'']"
      using r by (simp add: log_def)
  }
  {
    assume m: "\<exists>f\<in>set (files p). file_name f = idx"
      and wr: "fs_writeFile e outfile (stringify_project e (p\<lparr>index := idx\<rparr>)) = None"
    have s: "setProjectIndex p (index_arg args) w = (p\<lparr>index := idx\<rparr>, w)"
      by (rule setProjectIndex_found[OF m idx])
    have "exportProject e args w0 =
        log [''  '', ''exported'', '' to \"'' @ relative e (cwd w0) outfile @ ''\"\<newline>'']
          (w\<lparr>written := written w @ [(outfile, stringify_project e (p\<lparr>index := idx\<rparr>))]\<rparr>)"
      using g s wr out c1
      by (simp add: exportProject_def and_then_def write_bundle_def setFile_def Let_def)
    then show "written (exportProject e args w0)
            = written w0 @ [(outfile, stringify_project e (p\<lparr>index := idx\<rparr>))]"
      using r by simp
  }
qed

subsection \<open>Project files and types packages\<close>



text \<open>
  A dollar sign in the allow-list is read as a replacement pattern, and then the two
  rewritings differ: with the allow-list \<^verbatim>\<open>$&\<close> the match itself is inserted.
\<close>

lemma rewrite_include_dollar:
  "rewrite_include ''$&'' ''a.ts'' = ''a.{.ts}''"
  "brace_expansion ''$&'' ''a.ts'' = ''a.{$&}''"
  by (simp_all add: rewrite_include_def brace_expansion_def ends_with_def)




lemma run_tasks_fails:
  assumes "x \<in> set xs"
    and "\<And>p w. cwd w = dir \<Longrightarrow> \<exists>err. fst (task x p w) = Inl err"
    and "\<And>y p w. frame p w (task y p w)"
    and "cwd w = dir"
  shows "\<exists>err. fst (run_tasks task xs p w) = Inl err"
  using assms(1,4)
proof (induction xs arbitrary: p w)
  case Nil
  then show ?case by simp
next
  case (Cons y ys)
  show ?case
  proof (cases "task y p w")
    case (Pair a w1)
    show ?thesis
    proof (cases a)
      case (Inl err)
      with Pair show ?thesis by (simp add: and_then_def)
    next
      case (Inr p1)
      with Pair assms(3)[of p w y] have c: "cwd w1 = cwd w"
        by (simp add: frame_def)
      have "y \<noteq> x"
        using assms(2)[OF Cons.prems(2), of p] Pair Inr by auto
      with Cons.prems have "x \<in> set ys" by simp
      from Cons.IH[OF this, of w1 p1] c Cons.prems(2) Pair Inr show ?thesis
        by (simp add: and_then_def)
    qed
  qed
qed

lemma createProject_any_world:
  assumes "fst (createProject e w) = Inr p0"
  shows "fst (createProject e w') = Inr p0"
  using assms
  by (auto simp: createProject_def await_def Let_def split: if_splits sum.splits)

lemma types_task_typed_fails:
  assumes "requireResolve e (join e [packageName, ''package.json'']) = Inr resolved"
    and "getFile e (relative e (cwd w) resolved) = Inr data"
    and "parse_package e data = Inr packageJson"
    and "js_or (pkg_typings packageJson) (pkg_types packageJson) = Some entry"
    and "entry \<noteq> []"
    and "requireResolve e (normalize e (join e [packageName, entry])) = Inl err \<or>
         (\<exists>r. requireResolve e (normalize e (join e [packageName, entry])) = Inr r \<and>
              getFile e (relative e (cwd w) r) = Inl err)"
  shows "fst (types_task e packageName p w) = Inl err"
  using assms by (auto simp: types_task_def await_def Let_def)

lemma run_phases_types_fail:
  assumes "compilerOptions (tsconfig p0) = Some opts" and "types opts = Some names"
    and "packageName \<in> set names"
    and "\<And>p w. cwd w = dir \<Longrightarrow> \<exists>err. fst (types_task e packageName p w) = Inl err"
    and "cwd w = dir"
  shows "\<exists>err. fst (run_phases e args p0 w) = Inl err"
proof (cases "addLibFiles e p0 w")
  case (Pair a w1)
  show ?thesis
  proof (cases a)
    case (Inl err)
    with Pair show ?thesis by (simp add: run_phases_def and_then_def)
  next
    case (Inr p1)
    with Pair addLibFiles_frame[of p0 w e] have f: "tsconfig p1 = tsconfig p0" "cwd w1 = dir"
      using assms(5) by (simp_all add: frame_def)
    have "\<exists>err. fst (run_tasks (types_task e) names p1 w1) = Inl err"
      using assms(3,4) types_task_frame f(2)
      by (rule run_tasks_fails[where task = "types_task e" and x = packageName and dir = dir])
    then obtain err where "fst (addTypesFiles e p1 w1) = Inl err"
      using assms(1,2) f(1) by (auto simp: addTypesFiles_def)
    then obtain w2 where "addTypesFiles e p1 w1 = (Inl err, w2)"
      by (cases "addTypesFiles e p1 w1") auto
    with Pair Inr show ?thesis
      by (simp add: run_phases_def and_then_def)
  qed
qed

section \<open>Two tests of the repository, replayed\<close>

text \<open>
  The suite of \<^verbatim>\<open>exportProject\<close> has two tests on versions declared more than once. In
  "dual dependencies, first one wins" the project depends on dep1 and has the peer
  dependency dep2; the production frontier is therefore dep2, dep1, and the version of dep4
  expected by the test, "1.0.0", is the one declared by dep1, which is processed last. In
  "deep dependencies with duplicates" dep1 declares dep3 at "2.0.0" and dep2, one level
  down, declares it at "1.0.0"; the test expects "1.0.0". The model gives the expected
  maps for both.
\<close>

lemma test_dual_dependencies:
  "fst (addDependencies env_dual project_dual start_world) =
     Inr (project_dual\<lparr>dependencies :=
       \<lparr>production = [(''dep2'', ''2.0.0''), (''dep1'', ''1.0.0''), (''dep4'', ''1.0.0'')],
        development = [(''dep3'', ''0.1.0''), (''dep4'', ''2.0.0'')]\<rparr>\<rparr>)"
  by code_simp

lemma test_deep_dependencies:
  "fst (addDependencies env_deep project_deep start_world) =
     Inr (project_deep\<lparr>dependencies :=
       \<lparr>production = [(''dep1'', ''1.0.0''), (''dep2'', ''1.0.0''), (''dep3'', ''1.0.0''),
                      (''dep4'', ''2.0.0'')],
        development = []\<rparr>\<rparr>)"
  by code_simp

section \<open>Dependency flattening\<close>

text \<open>
  C1 (as amended). In dependency flattening there is no first-write-wins rule: the pass over
  the frontier assigns each manifest's entries over the accumulator, so a later package
  overwrites the version an earlier package gave to the same name. For packages A declaring
  {X: va} and B declaring {X: vb}, both not yet parsed, resolving with frontier order [A, B]
  yields exactly X mapped to vb, the version of the later package (X itself being already
  parsed, or without a readable manifest, or declaring nothing).
\<close>

theorem later_package_overwrites:
  assumes "A \<noteq> B" and "A \<notin> parsedPackages s" and "B \<notin> parsedPackages s"
    and "try_packageJson e A = Inr pa" and "try_packageJson e B = Inr pb"
    and "pkg_peerDependencies pa = None" and "pkg_dependencies pa = Some [(X, va)]"
    and "pkg_peerDependencies pb = None" and "pkg_dependencies pb = Some [(X, vb)]"
    and "X \<in> parsedPackages s \<union> {A, B} \<or>
         (case try_packageJson e X of
            Inl err \<Rightarrow> True
          | Inr px \<Rightarrow> pkg_peerDependencies px = None \<and> pkg_dependencies px = None)"
  shows "acc (getDependencies e [(A, ra), (B, rb)] s) = [(X, vb)]"
proof -
  let ?s1 = "frontier e [A, B] (s\<lparr>acc := []\<rparr>)"
  have f: "?s1 = frontier e [B] (frontier e [A] (s\<lparr>acc := []\<rparr>))"
    using frontier_append[of e "[A]" "[B]" "s\<lparr>acc := []\<rparr>"] by (simp only: append_Cons append_Nil)
  have a1: "acc (frontier e [A] (s\<lparr>acc := []\<rparr>)) = [(X, va)]"
    using assms(2,4,6,7) by (simp add: frontier_found)
  have "B \<notin> parsedPackages (frontier e [A] (s\<lparr>acc := []\<rparr>))"
    using assms(1,3) by (simp add: frontier_parsedPackages)
  then have acc1: "acc ?s1 = [(X, vb)]"
    unfolding f using assms(5,8,9) a1 by (simp add: frontier_found)
  have P1: "parsedPackages ?s1 = parsedPackages s \<union> {A, B}"
    by (simp add: frontier_parsedPackages)
  let ?s2 = "frontier e [X] (?s1\<lparr>acc := []\<rparr>)"
  have acc2: "acc ?s2 = []"
  proof (cases "X \<in> parsedPackages ?s1")
    case True
    then show ?thesis by (simp add: frontier_seen)
  next
    case False
    with P1 assms(10) have c: "case try_packageJson e X of
            Inl err \<Rightarrow> True
          | Inr px \<Rightarrow> pkg_peerDependencies px = None \<and> pkg_dependencies px = None"
      by auto
    show ?thesis
    proof (cases "try_packageJson e X")
      case (Inl err)
      with False show ?thesis by (simp add: frontier_missing)
    next
      case (Inr px)
      with False c show ?thesis by (simp add: frontier_found)
    qed
  qed
  have inner: "acc (getDependencies e [(X, vb)] ?s1) = []"
    using acc2 by (simp add: getDependencies.simps[of e "[(X, vb)]" ?s1] Object_keys_def Let_def)
  show ?thesis
    using acc1 inner
    by (simp add: getDependencies.simps[of e "[(A, ra), (B, rb)]" s] Object_keys_def Let_def)
qed

theorem later_package_overwrites_witness:
  "acc (getDependencies env_AB [(''A'', ''^1.0.0''), (''B'', ''^1.0.0'')] start_walk)
     = [(''X'', ''1.0.1'')]"
  by (rule later_package_overwrites
        [where pa = "manifest None (Some [(''X'', ''1.0.0'')])"
           and pb = "manifest None (Some [(''X'', ''1.0.1'')])" and va = "''1.0.0''"])
     (simp_all add: env_AB_def parse_AB_def example_defs)

theorem first_write_wins_counterexample:
  "map_of (acc (getDependencies env_AB [(''A'', ''^1.0.0''), (''B'', ''^1.0.0'')] start_walk)) ''X''
     \<noteq> Some ''1.0.0''"
  by (simp add: getDependencies.simps frontier.simps env_AB_def parse_AB_def example_defs Let_def)

text \<open>
  C2. When one manifest declares the same name in \<^verbatim>\<open>peerDependencies\<close> and in
  \<^verbatim>\<open>dependencies\<close>, the regular dependency wins in the merged accumulator, because the
  peer entries are assigned first and the regular entries over them. This holds for a
  frontier package inside \<^verbatim>\<open>getDependencies\<close> (the accumulator right after the package
  \<open>k\<close> has been processed, whatever was collected before) and for the production set
  seeded from the project's own manifest. In the witness the package declares
  peerDependencies {Y: "2.0.0"} and dependencies {Y: "1.0.0"}.
\<close>

theorem regular_dependency_wins:
  assumes "pkg_dependencies pj = Some d" and "distinct (map fst d)" and "map_of d y = Some v"
  shows "(k \<notin> parsedPackages s \<union> set ks \<and> try_packageJson e k = Inr pj \<longrightarrow>
            map_of (acc (frontier e (ks @ [k]) s)) y = Some v) \<and>
         (package p = pj \<longrightarrow> map_of (seed_production p) y = Some v)"
proof (intro conjI impI)
  assume a: "k \<notin> parsedPackages s \<union> set ks \<and> try_packageJson e k = Inr pj"
  then have "k \<notin> parsedPackages (frontier e ks s)"
    by (simp add: frontier_parsedPackages)
  with a assms show "map_of (acc (frontier e (ks @ [k]) s)) y = Some v"
    by (simp add: frontier_append frontier_found Object_assign_wins)
next
  assume "package p = pj"
  with assms show "map_of (seed_production p) y = Some v"
    by (simp add: seed_production_def Object_assign_wins)
qed

theorem regular_dependency_wins_witness:
  "map_of (acc (frontier env_PY ([] @ [''P'']) start_walk)) ''Y'' = Some ''1.0.0'' \<and>
   map_of (seed_production project_PY) ''Y'' = Some ''1.0.0''"
  using regular_dependency_wins
    [of "manifest (Some [(''Y'', ''2.0.0'')]) (Some [(''Y'', ''1.0.0'')])" "[(''Y'', ''1.0.0'')]"
        "''Y''" "''1.0.0''" "''P''" start_walk "[]" env_PY project_PY]
  by (simp add: env_PY_def parse_PY_def project_PY_def empty_project_def example_defs)

section \<open>Cycle safety\<close>

lemma cycle_run:
  "visits (proc (getDependencies env_cycle [(''A'', ''1.0.0'')] start_walk)) = [''A'', ''B'']"
  "acc (getDependencies env_cycle [(''A'', ''1.0.0'')] start_walk) = [(''B'', ''1.0.0''), (''A'', ''1.0.0'')]"
  by (simp_all add: getDependencies.simps frontier.simps env_cycle_def parse_cycle_def
      example_defs Let_def)

text \<open>
  C3. \<^verbatim>\<open>getDependencies\<close> terminates on every dependency graph, cyclic or not: it is
  defined above by well-founded recursion, so it is a total function. Each package name is
  resolved at most once in a run: the names whose manifest lookup the run starts are
  pairwise different, none of them was in the set of parsed packages before, all of them
  are in it afterwards, and their number is bounded by the number of unparsed names among
  the frontier and the names declared by readable manifests. The witness is the cycle
  A -> B -> A, where the run looks up A, then B, and stops.
\<close>

theorem each_package_resolved_once:
  "\<exists>new. visits (proc (getDependencies e packages s)) = visits (proc s) @ new \<and>
         distinct new \<and>
         set new \<inter> parsedPackages s = {} \<and>
         parsedPackages (getDependencies e packages s) = parsedPackages s \<union> set new \<and>
         length new \<le> card ((declared_names e \<union> set (Object_keys packages)) - parsedPackages s)"
proof -
  obtain new where n: "visits (proc (getDependencies e packages s)) = visits (proc s) @ new"
    "distinct new" "set new \<inter> parsedPackages s = {}"
    "parsedPackages (getDependencies e packages s) = parsedPackages s \<union> set new"
    "set new \<subseteq> declared_names e \<union> set (Object_keys packages)"
    using getDependencies_visits[of e packages s] by auto
  have "set new \<subseteq> (declared_names e \<union> set (Object_keys packages)) - parsedPackages s"
    using n(3,5) by blast
  moreover have "finite ((declared_names e \<union> set (Object_keys packages)) - parsedPackages s)"
    by (simp add: finite_declared_names)
  ultimately have "card (set new) \<le>
      card ((declared_names e \<union> set (Object_keys packages)) - parsedPackages s)"
    by (rule card_mono[rotated])
  with n(2) have "length new \<le>
      card ((declared_names e \<union> set (Object_keys packages)) - parsedPackages s)"
    by (simp add: distinct_card)
  with n show ?thesis by blast
qed

theorem each_package_resolved_once_witness:
  "visits (proc (getDependencies env_cycle [(''A'', ''1.0.0'')] start_walk)) = [''A'', ''B''] \<and>
   (\<exists>new. visits (proc (getDependencies env_cycle [(''A'', ''1.0.0'')] start_walk))
            = visits (proc start_walk) @ new \<and>
          distinct new \<and>
          set new \<inter> parsedPackages start_walk = {} \<and>
          parsedPackages (getDependencies env_cycle [(''A'', ''1.0.0'')] start_walk)
            = parsedPackages start_walk \<union> set new \<and>
          length new \<le> card ((declared_names env_cycle \<union> set (Object_keys [(''A'', ''1.0.0'')]))
                               - parsedPackages start_walk))"
  using each_package_resolved_once[of env_cycle "[(''A'', ''1.0.0'')]" start_walk] cycle_run(1)
  by simp

section \<open>Missing dependency manifests\<close>




section \<open>The name of the bundle file\<close>

text \<open>
  C6. The name of the output file is the manifest's \<^verbatim>\<open>name\<close> with only the first path
  separator (a slash or a backslash) replaced by a hyphen, followed by
  \<^verbatim>\<open>.project.json\<close>: what precedes the first separator and what follows it are kept as
  they are, later separators included, and a name without separators is unchanged. The
  manifest name "@dojo/widget-core" gives "@dojo-widget-core.project.json"; a manifest
  without a name gives "bundle.project.json" (so does an empty name, which is falsy).
\<close>

theorem outfilename_first_separator:
  "(pkg_name pkg = Some n \<and> n \<noteq> [] \<longrightarrow>
      outfilename pkg = replace_separator n @ ''.project.json'') \<and>
   (CHR ''/'' \<notin> set pre \<and> CHR 0x5C \<notin> set pre \<and> (c = CHR ''/'' \<or> c = CHR 0x5C) \<longrightarrow>
      replace_separator (pre @ c # post) = pre @ CHR ''-'' # post) \<and>
   (CHR ''/'' \<notin> set n \<and> CHR 0x5C \<notin> set n \<longrightarrow> replace_separator n = n) \<and>
   (pkg_name pkg = Some ''@dojo/widget-core'' \<longrightarrow>
      outfilename pkg = ''@dojo-widget-core.project.json'') \<and>
   (pkg_name pkg = None \<longrightarrow> outfilename pkg = ''bundle.project.json'')"
  by (auto simp: outfilename_def replace_separator_first replace_separator_none)

theorem outfilename_first_separator_witness:
  "outfilename (named ''@dojo/widget-core'') = ''@dojo-widget-core.project.json'' \<and>
   outfilename (named ''a/b/c'') = replace_separator ''a/b/c'' @ ''.project.json'' \<and>
   replace_separator (''a'' @ CHR ''/'' # ''b/c'') = ''a'' @ CHR ''-'' # ''b/c'' \<and>
   replace_separator ''bundle'' = ''bundle'' \<and>
   outfilename (package empty_project) = ''bundle.project.json''"
  using outfilename_first_separator[of "named ''@dojo/widget-core''" "''bundle''" "''a''" "CHR ''/''" "''b/c''"]
    outfilename_first_separator[of "named ''a/b/c''" "''a/b/c''" "''a''" "CHR ''/''" "''b/c''"]
    outfilename_first_separator[of "package empty_project" "''bundle''" "''a''" "CHR ''/''" "''b/c''"]
  by (simp add: named_def empty_project_def)

section \<open>Concrete runs\<close>

lemma no_manifest_run:
  "exportProject env_no_manifest default_args start_world =
     start_world\<lparr>console :=
       [''\<newline>Export project bundle'',
        ''  errored Error: Path \"/var/projects/test-project\" does not contain a \"tsconfig.json\" and \"package.json\".'',
        ''\<newline>'']\<rparr>"
  by (simp add: exportProject_def gather_def createProject_def await_def and_then_def
      log_errored_def log_def setVerbose_def verbose_def new_Error_def missing_files_message_def
      exists_file_def env_no_manifest_def default_args_def example_defs Let_def)

lemma no_index_gather:
  "gather (env_project [''src/index.ts'']) default_args
     (log [''\<newline>Export project bundle''] (setVerbose (verbose_arg default_args) start_world))
   = (Inr (gathered [''src/index.ts'']),
      start_world\<lparr>console := [''\<newline>Export project bundle'']\<rparr>)"
  by (simp add: run_defs env_project_def named_def default_args_def simple_extname_def gathered_def
     getDependencies.simps frontier.simps empty_project_def example_defs Let_def)

lemma index_gather:
  "gather (env_project [''./src/index.html'']) default_args
     (log [''\<newline>Export project bundle''] (setVerbose (verbose_arg default_args) start_world))
   = (Inr (gathered [''./src/index.html'']),
      start_world\<lparr>console := [''\<newline>Export project bundle'']\<rparr>)"
  by (simp add: run_defs env_project_def named_def default_args_def simple_extname_def gathered_def
     getDependencies.simps frontier.simps empty_project_def example_defs Let_def)



lemma foo_manifest:
  "requireResolve env_types (join env_types [''foo'', ''package.json''])
     = Inr ''node_modules/foo/package.json''"
  "getFile env_types (relative env_types ''/var/projects/test-project''
     ''node_modules/foo/package.json'') = Inr ''foo''"
  "parse_package env_types ''foo'' = Inr ((manifest None None)\<lparr>pkg_types := Some ''foo.d.ts''\<rparr>)"
  "js_or (pkg_typings ((manifest None None)\<lparr>pkg_types := Some ''foo.d.ts''\<rparr>))
         (pkg_types ((manifest None None)\<lparr>pkg_types := Some ''foo.d.ts''\<rparr>)) = Some ''foo.d.ts''"
  "requireResolve env_types (normalize env_types (join env_types [''foo'', ''foo.d.ts'']))
     = Inr ''node_modules/foo/foo.d.ts''"
  "getFile env_types (relative env_types ''/var/projects/test-project''
     ''node_modules/foo/foo.d.ts'') = Inl (Error ''file not found'' ''Error: file not found'')"
  by (simp_all add: env_types_def parse_types_def example_defs js_or_def truthy_def)

lemma types_project:
  "fst (createProject env_types start_world) =
     Inr (empty_project
       \<lparr>package := (manifest None None)\<lparr>pkg_types := Some ''foo.d.ts''\<rparr>,
        tsconfig := \<lparr>compilerOptions = Some \<lparr>lib = None, types = Some [''baz'', ''foo'']\<rparr>,
                     tsconfig_include = None\<rparr>\<rparr>)"
  by (simp add: createProject_def exists_file_def await_def env_types_def parse_types_def
      example_defs Let_def)

lemma types_run:
  "exportProject env_types default_args start_world =
     start_world\<lparr>console :=
       [''\<newline>Export project bundle'',
        ''  warn \"node_modules/baz/package.json\" does not contain type information'',
        ''  errored Error: file not found'',
        ''\<newline>'']\<rparr>"
  by (simp add: run_defs types_task_def no_type_information_def try_index_d_ts_def
      push_environmentFile_def createProjectFile_def js_or_def truthy_def
      log_errored_def env_types_def parse_types_def default_args_def
      empty_project_def example_defs Let_def)

section \<open>Required files\<close>

text \<open>
  C4. When the manifest and the compiler configuration are not both present in the working
  directory, \<^verbatim>\<open>createProject\<close> throws an error whose message names the working directory
  and the two required files; the handler of \<^verbatim>\<open>exportProject\<close> catches it, so the run
  ends normally with the two lines of the handler as its last output (the headline of the
  stack after the word errored, then the rest of the stack), and no file is written.
  Conversely \<^verbatim>\<open>createProject\<close> succeeds only when both files exist.
\<close>

theorem required_files_missing:
  "(\<not> (exists_file e ''package.json'' \<and> exists_file e ''tsconfig.json'') \<longrightarrow>
      createProject e w = (Inl (new_Error e (missing_files_message (cwd w))), w) \<and>
      err_message (new_Error e (missing_files_message (cwd w)))
        = ''Path \"'' @ cwd w @ ''\" does not contain a \"tsconfig.json\" and \"package.json\".'' \<and>
      written (exportProject e args w0) = written w0 \<and>
      (\<forall>dir. fs_chdir e (project args) = Inr dir \<longrightarrow>
         (\<exists>before. console (exportProject e args w0) = before @
            [''  errored '' @
               hd (split_lines (''Error: '' @ missing_files_message dir @ trace e)),
             join_with ''\<newline>''
               (tl (split_lines (''Error: '' @ missing_files_message dir @ trace e)))
               @ ''\<newline>'']))) \<and>
   ((\<exists>p w'. createProject e w = (Inr p, w')) \<longrightarrow>
      exists_file e ''package.json'' \<and> exists_file e ''tsconfig.json'')"
proof (intro conjI impI allI)
  assume m: "\<not> (exists_file e ''package.json'' \<and> exists_file e ''tsconfig.json'')"
  then show c: "createProject e w = (Inl (new_Error e (missing_files_message (cwd w))), w)"
    by (simp add: createProject_def)
  show "err_message (new_Error e (missing_files_message (cwd w)))
        = ''Path \"'' @ cwd w @ ''\" does not contain a \"tsconfig.json\" and \"package.json\".''"
    by (simp add: new_Error_def missing_files_message_def)
  let ?w1 = "log [''\<newline>Export project bundle''] (setVerbose (verbose_arg args) w0)"
  from m have cp: "\<And>w. createProject e w = (Inl (new_Error e (missing_files_message (cwd w))), w)"
    by (simp add: createProject_def)
  show "written (exportProject e args w0) = written w0"
  proof (cases "gather e args ?w1")
    case (Pair a w')
    show ?thesis
    proof (cases a)
      case (Inl err)
      with Pair exportProject_failed[of e args w0 err w'] show ?thesis by simp
    next
      case (Inr p)
      with Pair cp show ?thesis
        by (simp add: gather_def await_def and_then_def Let_def split: sum.splits)
    qed
  qed
  fix dir
  assume d: "fs_chdir e (project args) = Inr dir"
  let ?w2 = "(if cwd (?w1\<lparr>cwd := dir\<rparr>) \<noteq> cwd ?w1
                 then verbose [indent 1 '''', ''changing'',
                        '' working directory to \"'' @ project args @ ''\"''] (?w1\<lparr>cwd := dir\<rparr>)
                 else ?w1\<lparr>cwd := dir\<rparr>)"
  have "cwd ?w2 = dir" by simp
  with d cp[of ?w2] have
    "gather e args ?w1 = (Inl (new_Error e (missing_files_message dir)), ?w2)"
    by (simp add: gather_def await_def and_then_def Let_def)
  from exportProject_failed(1)[OF this]
  have "console (exportProject e args w0) = console ?w2 @
            [''  errored '' @
               hd (split_lines (''Error: '' @ missing_files_message dir @ trace e)),
             join_with ''\<newline>''
               (tl (split_lines (''Error: '' @ missing_files_message dir @ trace e)))
               @ ''\<newline>'']"
    by (simp add: log_errored_console new_Error_def)
  then show "\<exists>before. console (exportProject e args w0) = before @
            [''  errored '' @
               hd (split_lines (''Error: '' @ missing_files_message dir @ trace e)),
             join_with ''\<newline>''
               (tl (split_lines (''Error: '' @ missing_files_message dir @ trace e)))
               @ ''\<newline>'']"
    by blast
next
  assume "\<exists>p w'. createProject e w = (Inr p, w')"
  then show "exists_file e ''package.json''" "exists_file e ''tsconfig.json''"
    by (auto simp: createProject_def split: if_splits)
qed

theorem required_files_missing_witness:
  "\<not> (exists_file env_no_manifest ''package.json'' \<and> exists_file env_no_manifest ''tsconfig.json'') \<and>
   createProject env_no_manifest start_world =
     (Inl (Error ''Path \"/var/projects/test-project\" does not contain a \"tsconfig.json\" and \"package.json\".''
                 ''Error: Path \"/var/projects/test-project\" does not contain a \"tsconfig.json\" and \"package.json\".''),
      start_world) \<and>
   written (exportProject env_no_manifest default_args start_world) = [] \<and>
   console (exportProject env_no_manifest default_args start_world) =
       [''\<newline>Export project bundle'',
        ''  errored Error: Path \"/var/projects/test-project\" does not contain a \"tsconfig.json\" and \"package.json\".'',
        ''\<newline>'']"
  using required_files_missing[of env_no_manifest start_world default_args start_world]
    no_manifest_run
  by (simp add: exists_file_def env_no_manifest_def example_defs new_Error_def
      missing_files_message_def)

section \<open>Index validation\<close>

text \<open>
  C5. Index validation is not fatal and touches only the index. With \<open>idx\<close> the requested
  path (\<^verbatim>\<open>./src/index.html\<close> when none is given): if no entry of \<open>files\<close> has exactly
  that name, \<^verbatim>\<open>setProjectIndex\<close> returns the project unchanged and logs one error line
  through \<^verbatim>\<open>log\<close>, which prints whatever the verbose flag is; if an entry has that name
  the only change is that the index becomes \<open>idx\<close>. In a run whose gathering succeeded the
  index is still empty before this step, and the bundle is written all the same: when the
  write succeeds, the file written holds the gathered project as it is (index empty) if
  there is no match, after the error line, and the project with the index set if there is.
\<close>

theorem index_validation:
  assumes "idx = (case i of None \<Rightarrow> ''./src/index.html'' | Some x \<Rightarrow> x)"
  shows
   "((\<forall>f\<in>set (files p). file_name f \<noteq> idx) \<longrightarrow>
       setProjectIndex p i w =
         (p, log [''  '', ''error'', '' unable to find index \"'' @ idx @ ''\" in project.''] w)) \<and>
    ((\<exists>f\<in>set (files p). file_name f = idx) \<longrightarrow>
       setProjectIndex p i w = (p\<lparr>index := idx\<rparr>, w)) \<and>
    (i = index_arg args \<and>
     gather e args (log [''\<newline>Export project bundle''] (setVerbose (verbose_arg args) w0))
       = (Inr p, w) \<and>
     outfile = relative e (cwd w) (normalize e (join e [cwd w0, out args, outfilename (package p)]))
     \<longrightarrow>
       index p = [] \<and>
       ((\<forall>f\<in>set (files p). file_name f \<noteq> idx) \<and>
        fs_writeFile e outfile (stringify_project e p) = None \<longrightarrow>
          written (exportProject e args w0) = written w0 @ [(outfile, stringify_project e p)] \<and>
          console (exportProject e args w0) = console w @
            [''  error unable to find index \"'' @ idx @ ''\" in project.'',
             ''  exported to \"'' @ relative e (cwd w0) outfile @ ''\"\<newline>'']) \<and>
       ((\<exists>f\<in>set (files p). file_name f = idx) \<and>
        fs_writeFile e outfile (stringify_project e (p\<lparr>index := idx\<rparr>)) = None \<longrightarrow>
          written (exportProject e args w0)
            = written w0 @ [(outfile, stringify_project e (p\<lparr>index := idx\<rparr>))]))"
proof -
  have A: "(\<forall>f\<in>set (files p). file_name f \<noteq> idx) \<longrightarrow>
       setProjectIndex p i w =
         (p, log [''  '', ''error'', '' unable to find index \"'' @ idx @ ''\" in project.''] w)"
    using setProjectIndex_missing[of p idx i w] assms by blast
  have B: "(\<exists>f\<in>set (files p). file_name f = idx) \<longrightarrow>
       setProjectIndex p i w = (p\<lparr>index := idx\<rparr>, w)"
    using setProjectIndex_found[of p idx i w] assms by blast
  have C: "i = index_arg args \<and>
     gather e args (log [''\<newline>Export project bundle''] (setVerbose (verbose_arg args) w0))
       = (Inr p, w) \<and>
     outfile = relative e (cwd w) (normalize e (join e [cwd w0, out args, outfilename (package p)]))
     \<longrightarrow>
       index p = [] \<and>
       ((\<forall>f\<in>set (files p). file_name f \<noteq> idx) \<and>
        fs_writeFile e outfile (stringify_project e p) = None \<longrightarrow>
          written (exportProject e args w0) = written w0 @ [(outfile, stringify_project e p)] \<and>
          console (exportProject e args w0) = console w @
            [''  error unable to find index \"'' @ idx @ ''\" in project.'',
             ''  exported to \"'' @ relative e (cwd w0) outfile @ ''\"\<newline>'']) \<and>
       ((\<exists>f\<in>set (files p). file_name f = idx) \<and>
        fs_writeFile e outfile (stringify_project e (p\<lparr>index := idx\<rparr>)) = None \<longrightarrow>
          written (exportProject e args w0)
            = written w0 @ [(outfile, stringify_project e (p\<lparr>index := idx\<rparr>))])"
  proof (intro impI)
    assume a: "i = index_arg args \<and>
     gather e args (log [''\<newline>Export project bundle''] (setVerbose (verbose_arg args) w0))
       = (Inr p, w) \<and>
     outfile = relative e (cwd w) (normalize e (join e [cwd w0, out args, outfilename (package p)]))"
    then have g: "gather e args (log [''\<newline>Export project bundle''] (setVerbose (verbose_arg args) w0))
       = (Inr p, w)"
      and out: "outfile = relative e (cwd w)
         (normalize e (join e [cwd w0, out args, outfilename (package p)]))"
      and idx: "idx = (case index_arg args of None \<Rightarrow> ''./src/index.html'' | Some x \<Rightarrow> x)"
      using assms by simp_all
    from export_after_gather[OF g idx out]
    show "index p = [] \<and>
       ((\<forall>f\<in>set (files p). file_name f \<noteq> idx) \<and>
        fs_writeFile e outfile (stringify_project e p) = None \<longrightarrow>
          written (exportProject e args w0) = written w0 @ [(outfile, stringify_project e p)] \<and>
          console (exportProject e args w0) = console w @
            [''  error unable to find index \"'' @ idx @ ''\" in project.'',
             ''  exported to \"'' @ relative e (cwd w0) outfile @ ''\"\<newline>'']) \<and>
       ((\<exists>f\<in>set (files p). file_name f = idx) \<and>
        fs_writeFile e outfile (stringify_project e (p\<lparr>index := idx\<rparr>)) = None \<longrightarrow>
          written (exportProject e args w0)
            = written w0 @ [(outfile, stringify_project e (p\<lparr>index := idx\<rparr>))])"
      by blast
  qed
  from A B C show ?thesis by (intro conjI)
qed

theorem index_validation_witness:
  "setProjectIndex (gathered [''src/index.ts'']) None start_world =
     (gathered [''src/index.ts''],
      start_world\<lparr>console := [''  error unable to find index \"./src/index.html\" in project.'']\<rparr>) \<and>
   index (gathered [''src/index.ts'']) = [] \<and>
   written (exportProject (env_project [''src/index.ts'']) default_args start_world) =
     [(''/var/projects/test-project/./test-package.project.json'', ''index: '')] \<and>
   console (exportProject (env_project [''src/index.ts'']) default_args start_world) =
     [''\<newline>Export project bundle'',
      ''  error unable to find index \"./src/index.html\" in project.'',
      ''  exported to \"/var/projects/test-project/./test-package.project.json\"\<newline>''] \<and>
   setProjectIndex (gathered [''./src/index.html'']) None start_world =
     ((gathered [''./src/index.html''])\<lparr>index := ''./src/index.html''\<rparr>, start_world) \<and>
   written (exportProject (env_project [''./src/index.html'']) default_args start_world) =
     [(''/var/projects/test-project/./test-package.project.json'', ''index: ./src/index.html'')]"
  using index_validation[of "''./src/index.html''" None "gathered [''src/index.ts'']"
      start_world default_args "env_project [''src/index.ts'']" start_world
      "''/var/projects/test-project/./test-package.project.json''"]
    index_validation[of "''./src/index.html''" None "gathered [''src/index.ts'']"
      "start_world\<lparr>console := [''\<newline>Export project bundle'']\<rparr>"
      default_args "env_project [''src/index.ts'']" start_world
      "''/var/projects/test-project/./test-package.project.json''"]
    index_validation[of "''./src/index.html''" None "gathered [''./src/index.html'']"
      start_world default_args "env_project [''./src/index.html'']" start_world
      "''/var/projects/test-project/./test-package.project.json''"]
    index_validation[of "''./src/index.html''" None "gathered [''./src/index.html'']"
      "start_world\<lparr>console := [''\<newline>Export project bundle'']\<rparr>"
      default_args "env_project [''./src/index.html'']" start_world
      "''/var/projects/test-project/./test-package.project.json''"]
    no_index_gather index_gather
  by (simp add: gathered_def env_project_def named_def default_args_def outfilename_def
      empty_project_def example_defs log_def)

section \<open>Collecting the project files\<close>



section \<open>Types packages without type information\<close>



section \<open>Types packages whose entry point cannot be loaded\<close>

text \<open>
  C10. For a requested types package whose manifest is found and declares a non-empty
  entry point (\<^verbatim>\<open>typings\<close>, else \<^verbatim>\<open>types\<close>): if the entry point fails to resolve, or
  resolves and cannot be read, the task throws that error, unlike the \<^verbatim>\<open>index.d.ts\<close>
  lookup of C9 whose failures are swallowed. In a run whose configuration requests such a
  package the error reaches the handler of \<^verbatim>\<open>exportProject\<close>: the run ends with the
  handler's lines for some error and writes no file.
\<close>

theorem typings_failure_aborts:
  assumes "requireResolve e (join e [packageName, ''package.json'']) = Inr resolved"
    and "getFile e (relative e dir resolved) = Inr data"
    and "parse_package e data = Inr packageJson"
    and "js_or (pkg_typings packageJson) (pkg_types packageJson) = Some entry"
    and "entry \<noteq> []"
    and "requireResolve e (normalize e (join e [packageName, entry])) = Inl err \<or>
         (\<exists>r. requireResolve e (normalize e (join e [packageName, entry])) = Inr r \<and>
              getFile e (relative e dir r) = Inl err)"
  shows "(cwd w = dir \<longrightarrow> fst (types_task e packageName p w) = Inl err) \<and>
         (fs_chdir e (project args) = Inr dir \<and> fst (createProject e w1) = Inr p0 \<and>
          compilerOptions (tsconfig p0) = Some opts \<and> types opts = Some names \<and>
          packageName \<in> set names \<longrightarrow>
            written (exportProject e args w0) = written w0 \<and>
            (\<exists>err' w'. exportProject e args w0 = log_errored err' w'))"
proof (intro conjI impI)
  have task: "\<And>p w. cwd w = dir \<Longrightarrow> fst (types_task e packageName p w) = Inl err"
    using assms by (intro types_task_typed_fails[where resolved = resolved]) simp_all
  assume "cwd w = dir"
  then show "fst (types_task e packageName p w) = Inl err" by (rule task)
next
  have task: "\<And>p w. cwd w = dir \<Longrightarrow> \<exists>err. fst (types_task e packageName p w) = Inl err"
    using assms by (intro exI types_task_typed_fails[where resolved = resolved]) simp_all
  assume a: "fs_chdir e (project args) = Inr dir \<and> fst (createProject e w1) = Inr p0 \<and>
          compilerOptions (tsconfig p0) = Some opts \<and> types opts = Some names \<and>
          packageName \<in> set names"
  let ?w1 = "log [''\<newline>Export project bundle''] (setVerbose (verbose_arg args) w0)"
  let ?w2 = "(if cwd (?w1\<lparr>cwd := dir\<rparr>) \<noteq> cwd ?w1
                 then verbose [indent 1 '''', ''changing'',
                        '' working directory to \"'' @ project args @ ''\"''] (?w1\<lparr>cwd := dir\<rparr>)
                 else ?w1\<lparr>cwd := dir\<rparr>)"
  have c2: "cwd ?w2 = dir" by simp
  from a have "fst (createProject e ?w2) = Inr p0"
    by (auto intro: createProject_any_world)
  then obtain w3 where c: "createProject e ?w2 = (Inr p0, w3)"
    by (cases "createProject e ?w2") auto
  with createProject_world[of e ?w2] c2 have c3: "cwd w3 = dir" by simp
  from a have "\<exists>err. fst (run_phases e args p0 w3) = Inl err"
    by (intro run_phases_types_fail[where packageName = packageName and dir = dir
          and opts = opts and names = names] task c3) simp_all
  then obtain err' w' where "run_phases e args p0 w3 = (Inl err', w')"
    by (cases "run_phases e args p0 w3") auto
  with a c have g: "gather e args ?w1 = (Inl err', w')"
    by (simp add: gather_def await_def and_then_def Let_def)
  from exportProject_failed[OF g]
  show "written (exportProject e args w0) = written w0"
    and "\<exists>err' w'. exportProject e args w0 = log_errored err' w'"
    by auto
qed

theorem typings_failure_aborts_witness:
  "fst (types_task env_types ''foo'' empty_project start_world)
     = Inl (Error ''file not found'' ''Error: file not found'') \<and>
   written (exportProject env_types default_args start_world) = [] \<and>
   console (exportProject env_types default_args start_world) =
       [''\<newline>Export project bundle'',
        ''  warn \"node_modules/baz/package.json\" does not contain type information'',
        ''  errored Error: file not found'',
        ''\<newline>'']"
  using typings_failure_aborts
    [of env_types "''foo''" "''node_modules/foo/package.json''" "''/var/projects/test-project''"
        "''foo''" "(manifest None None)\<lparr>pkg_types := Some ''foo.d.ts''\<rparr>" "''foo.d.ts''"
        "Error ''file not found'' ''Error: file not found''" start_world empty_project
        default_args start_world
        "empty_project
          \<lparr>package := (manifest None None)\<lparr>pkg_types := Some ''foo.d.ts''\<rparr>,
           tsconfig := \<lparr>compilerOptions = Some \<lparr>lib = None, types = Some [''baz'', ''foo'']\<rparr>,
                     tsconfig_include = None\<rparr>\<rparr>"
        "\<lparr>lib = None, types = Some [''baz'', ''foo'']\<rparr>" "[''baz'', ''foo'']" start_world]
    foo_manifest types_project types_run
  by (simp add: start_world_def)

end
